theory Spec2Isabelle
  imports Complex_Main
begin

section \<open>Promises: state passing with rejections\<close>

text \<open>
  Every method of the services is an \<^verbatim>\<open>async\<close> function. It is modelled as a function
  from the state it works on to an outcome and the state it leaves: \<open>Inr v\<close> when the
  promise resolves with \<open>v\<close>, \<open>Inl e\<close> when it rejects with \<open>e\<close>. The state is returned
  in both cases, since the effects made before a \<^verbatim>\<open>throw\<close> stay.
  \<open>await_then\<close> is \<^verbatim>\<open>await\<close> followed by the rest of the body, \<open>try_catch\<close> is a
  \<^verbatim>\<open>try { ... } catch (error) { ... }\<close> block and also \<^verbatim>\<open>promise.catch(handler)\<close>.
  Calls of the logger change nothing that is modelled here and are left out.
\<close>

datatype error =
    RedisError string
  | JsonError string
  | TypeError string
  | StorageError string
  | NotFoundException string
  | AxiosError string "(nat \<times> string) option"

type_synonym ('s, 'a) promise = "'s \<Rightarrow> (error + 'a) \<times> 's"

definition resolve :: "'a \<Rightarrow> ('s, 'a) promise" where
  "resolve v = (\<lambda>s. (Inr v, s))"

definition reject :: "error \<Rightarrow> ('s, 'a) promise" where
  "reject e = (\<lambda>s. (Inl e, s))"

definition await_then :: "('s, 'a) promise \<Rightarrow> ('a \<Rightarrow> ('s, 'b) promise) \<Rightarrow> ('s, 'b) promise" where
  "await_then p k = (\<lambda>s. case p s of (Inl e, s') \<Rightarrow> (Inl e, s') | (Inr v, s') \<Rightarrow> k v s')"

definition try_catch :: "('s, 'a) promise \<Rightarrow> (error \<Rightarrow> ('s, 'a) promise) \<Rightarrow> ('s, 'a) promise" where
  "try_catch body handler =
     (\<lambda>s. case body s of (Inl e, s') \<Rightarrow> handler e s' | (Inr v, s') \<Rightarrow> (Inr v, s'))"

section \<open>JavaScript values\<close>

text \<open>
  The values that pass through \<^verbatim>\<open>JSON.stringify\<close> and \<^verbatim>\<open>JSON.parse\<close> and the
  \<^verbatim>\<open>any\<close> that \<^verbatim>\<open>getLatest\<close> returns. Numbers are the finite doubles, each of which is
  a rational; \<^verbatim>\<open>@IsNumber()\<close> of the DTO refuses NaN and the infinities.
  \<open>truthy\<close> is the test of \<^verbatim>\<open>if (v)\<close>.
\<close>

datatype js_value =
    JNull
  | JBool bool
  | JNum rat
  | JStr string
  | JDate int
  | JArr "js_value list"
  | JObj "(string \<times> js_value) list"

fun truthy :: "js_value \<Rightarrow> bool" where
  "truthy JNull = False"
| "truthy (JBool b) = b"
| "truthy (JNum n) = (n \<noteq> 0)"
| "truthy (JStr s) = (s \<noteq> [])"
| "truthy (JDate t) = True"
| "truthy (JArr xs) = True"
| "truthy (JObj fs) = True"

section \<open>The Redis client\<close>

text \<open>
  The ioredis client is outside the repository. Its model is a store of string values
  with an absolute expiry time each, a clock in seconds, the list of the commands it
  has received, and \<open>rejects\<close>, which says for each command whether the client
  rejects it (connection lost, retries exhausted). \<^verbatim>\<open>SETEX\<close> with an expiry
  that is not positive is an error of the server.
\<close>

datatype redis_cmd = Get string | Setex string int string | Exists string

record redis_client =
  kv :: "string \<rightharpoonup> string \<times> int"
  now :: int
  rejects :: "redis_cmd \<Rightarrow> bool"
  issued :: "redis_cmd list"

definition live :: "redis_client \<Rightarrow> string \<Rightarrow> bool" where
  "live c k = (case kv c k of None \<Rightarrow> False | Some (v, expiry) \<Rightarrow> now c < expiry)"

definition issue :: "redis_cmd \<Rightarrow> redis_client \<Rightarrow> redis_client" where
  "issue cmd c = c\<lparr>issued := issued c @ [cmd]\<rparr>"

definition client_get :: "string \<Rightarrow> (redis_client, string option) promise" where
  "client_get k =
     (\<lambda>c. if rejects c (Get k) then (Inl (RedisError ''GET''), issue (Get k) c)
          else (Inr (case kv c k of
                       None \<Rightarrow> None
                     | Some (v, expiry) \<Rightarrow> if now c < expiry then Some v else None),
                issue (Get k) c))"

definition client_setex :: "string \<Rightarrow> int \<Rightarrow> string \<Rightarrow> (redis_client, unit) promise" where
  "client_setex k ttl v =
     (\<lambda>c. if rejects c (Setex k ttl v) \<or> ttl \<le> 0
          then (Inl (RedisError ''SETEX''), issue (Setex k ttl v) c)
          else (Inr (), (issue (Setex k ttl v) c)\<lparr>kv := (kv c)(k \<mapsto> (v, now c + ttl))\<rparr>))"

definition client_exists :: "string \<Rightarrow> (redis_client, nat) promise" where
  "client_exists k =
     (\<lambda>c. if rejects c (Exists k) then (Inl (RedisError ''EXISTS''), issue (Exists k) c)
          else (Inr (if live c k then 1 else 0), issue (Exists k) c))"

text \<open>Time passing on the server; nothing else changes.\<close>

definition advance :: "int \<Rightarrow> redis_client \<Rightarrow> redis_client" where
  "advance secs c = c\<lparr>now := now c + secs\<rparr>"

section \<open>RedisService (src/redis/redis.service.ts)\<close>

record redis_service =
  client :: redis_client
  isConnected :: bool

text \<open>A call of the client from the service: the client's state is a field of the service.\<close>

definition on_client :: "(redis_client, 'a) promise \<Rightarrow> (redis_service, 'a) promise" where
  "on_client p = (\<lambda>r. case p (client r) of (res, c') \<Rightarrow> (res, r\<lparr>client := c'\<rparr>))"

definition latest_key :: "string \<Rightarrow> string" where
  "latest_key deviceId = ''latest:'' @ deviceId"

datatype AlertReason = HIGH_TEMPERATURE | HIGH_HUMIDITY

fun reason_string :: "AlertReason \<Rightarrow> string" where
  "reason_string HIGH_TEMPERATURE = ''HIGH_TEMPERATURE''"
| "reason_string HIGH_HUMIDITY = ''HIGH_HUMIDITY''"

definition alert_key :: "string \<Rightarrow> AlertReason \<Rightarrow> string" where
  "alert_key deviceId reason = ''alert:'' @ deviceId @ '':'' @ reason_string reason"

text \<open>
  \<^verbatim>\<open>JSON.stringify\<close> and \<^verbatim>\<open>JSON.parse\<close> are built-ins of the language: they are
  parameters \<open>stringify\<close> and \<open>parse\<close>, with \<open>None\<close> where the built-in throws.
\<close>

definition json_stringify :: "(js_value \<Rightarrow> string option) \<Rightarrow> js_value \<Rightarrow> ('s, string) promise" where
  "json_stringify stringify v =
     (case stringify v of None \<Rightarrow> reject (TypeError ''JSON.stringify'') | Some s \<Rightarrow> resolve s)"

definition json_parse :: "(string \<Rightarrow> js_value option) \<Rightarrow> string \<Rightarrow> ('s, js_value) promise" where
  "json_parse parse s =
     (case parse s of None \<Rightarrow> reject (JsonError ''JSON.parse'') | Some v \<Rightarrow> resolve v)"

definition cacheLatest ::
  "(js_value \<Rightarrow> string option) \<Rightarrow> string \<Rightarrow> js_value \<Rightarrow> int \<Rightarrow> (redis_service, unit) promise" where
  "cacheLatest stringify deviceId data ttl =
     (\<lambda>r. if \<not> isConnected r then resolve () r
          else try_catch
                 (await_then (json_stringify stringify data)
                    (\<lambda>s. on_client (client_setex (latest_key deviceId) ttl s)))
                 (\<lambda>error. resolve ()) r)"

definition getLatest ::
  "(string \<Rightarrow> js_value option) \<Rightarrow> string \<Rightarrow> (redis_service, js_value) promise" where
  "getLatest parse deviceId =
     (\<lambda>r. if \<not> isConnected r then resolve JNull r
          else try_catch
                 (await_then (on_client (client_get (latest_key deviceId)))
                    (\<lambda>data. case data of
                       None \<Rightarrow> resolve JNull
                     | Some s \<Rightarrow> if s = [] then resolve JNull else json_parse parse s))
                 (\<lambda>error. resolve JNull) r)"

definition wasAlertRecentlySent :: "string \<Rightarrow> AlertReason \<Rightarrow> (redis_service, bool) promise" where
  "wasAlertRecentlySent deviceId reason =
     (\<lambda>r. if \<not> isConnected r then resolve False r
          else try_catch
                 (await_then (on_client (client_exists (alert_key deviceId reason)))
                    (\<lambda>exists. resolve (exists = 1)))
                 (\<lambda>error. resolve False) r)"

definition markAlertSent :: "string \<Rightarrow> AlertReason \<Rightarrow> int \<Rightarrow> (redis_service, unit) promise" where
  "markAlertSent deviceId reason windowSeconds =
     (\<lambda>r. if \<not> isConnected r then resolve () r
          else try_catch
                 (on_client (client_setex (alert_key deviceId reason) windowSeconds ''1''))
                 (\<lambda>error. resolve ()) r)"

section \<open>Readings and stored documents\<close>

text \<open>
  \<^verbatim>\<open>TelemetryDto\<close> (the validated request body, \<^verbatim>\<open>ts\<close> an ISO string) and the schema
  class \<^verbatim>\<open>Telemetry\<close> (\<^verbatim>\<open>ts\<close> a \<^verbatim>\<open>Date\<close>, here milliseconds since the epoch) have
  the same four fields; they are the two instances of one record, polymorphic in the
  type of \<^verbatim>\<open>ts\<close>. A \<^verbatim>\<open>TelemetryDocument\<close> is a \<^verbatim>\<open>Telemetry\<close> with the \<^verbatim>\<open>_id\<close> the
  driver gives it and the two timestamps of \<^verbatim>\<open>timestamps: true\<close>.
  \<^verbatim>\<open>new Date(s)\<close> is a built-in: the parameter \<open>new_Date\<close>.
\<close>

record Metrics =
  temperature :: rat
  humidity :: rat

record 'ts reading =
  deviceId :: string
  siteId :: string
  ts :: 'ts
  metrics :: Metrics

type_synonym TelemetryDto = "string reading"

type_synonym Telemetry = "int reading"

record TelemetryDocument = "int reading" +
  oid :: string
  createdAt :: int
  updatedAt :: int

definition metrics_value :: "Metrics \<Rightarrow> js_value" where
  "metrics_value m =
     JObj [(''temperature'', JNum (temperature m)), (''humidity'', JNum (humidity m))]"

text \<open>The plain object that \<^verbatim>\<open>.lean()\<close> gives for a stored document.\<close>

definition lean :: "TelemetryDocument \<Rightarrow> js_value" where
  "lean d =
     JObj [(''_id'', JStr (oid d)),
           (''deviceId'', JStr (deviceId d)),
           (''siteId'', JStr (siteId d)),
           (''ts'', JDate (ts d)),
           (''metrics'', metrics_value (metrics d)),
           (''createdAt'', JDate (createdAt d)),
           (''updatedAt'', JDate (updatedAt d))]"

section \<open>The telemetry collection\<close>

text \<open>
  The Mongoose model is outside the repository. Its model is the list of the stored
  documents in insertion order, the \<^verbatim>\<open>_id\<close> the driver gives to the n-th document,
  the server's clock, the number of read queries received, and for writes and for reads
  whether the server rejects them (\<open>Some message\<close>). \<open>insertMany\<close> stores one document
  per object, in order, or nothing.
\<close>

record telemetry_model =
  collection :: "TelemetryDocument list"
  objectId :: "nat \<Rightarrow> string"
  clock :: int
  write_error :: "string option"
  read_error :: "string option"
  reads :: nat

definition stored :: "string \<Rightarrow> int \<Rightarrow> Telemetry \<Rightarrow> TelemetryDocument" where
  "stored i t x =
     \<lparr>deviceId = deviceId x, siteId = siteId x, ts = ts x, metrics = metrics x,
      oid = i, createdAt = t, updatedAt = t\<rparr>"

definition insertMany :: "Telemetry list \<Rightarrow> (telemetry_model, TelemetryDocument list) promise" where
  "insertMany objs =
     (\<lambda>m. case write_error m of
             Some message \<Rightarrow> (Inl (StorageError message), m)
           | None \<Rightarrow>
               let n = length (collection m);
                   docs = map (\<lambda>(i, x). stored (objectId m i) (clock m) x)
                            (zip [n..<n + length objs] objs)
               in (Inr docs, m\<lparr>collection := collection m @ docs\<rparr>))"

text \<open>
  \<^verbatim>\<open>findOne({ deviceId }).sort({ ts: -1 }).lean().exec()\<close>: of the documents of the
  device, one with the greatest \<^verbatim>\<open>ts\<close> (the first stored among equals), or null.
\<close>

fun greatest_ts :: "TelemetryDocument list \<Rightarrow> TelemetryDocument option" where
  "greatest_ts [] = None"
| "greatest_ts (d # ds) =
     (case greatest_ts ds of
        None \<Rightarrow> Some d
      | Some e \<Rightarrow> if ts d < ts e then Some e else Some d)"

definition findOne_latest :: "string \<Rightarrow> (telemetry_model, TelemetryDocument option) promise" where
  "findOne_latest dev =
     (\<lambda>m. case read_error m of
             Some message \<Rightarrow> (Inl (StorageError message), m\<lparr>reads := reads m + 1\<rparr>)
           | None \<Rightarrow>
               (Inr (greatest_ts (filter (\<lambda>d. deviceId d = dev) (collection m))),
                m\<lparr>reads := reads m + 1\<rparr>))"

subsection \<open>The aggregation pipeline of getSiteSummary\<close>

text \<open>
  The three stages as the source writes them. \<^verbatim>\<open>$group\<close> with \<^verbatim>\<open>_id: null\<close> gives
  one row for a non-empty input and no row for an empty one. \<^verbatim>\<open>$avg\<close> is computed by
  the server in double arithmetic, whose sums are rounded: it is the parameter
  \<open>server_avg\<close>, applied to the values in the order of the collection, and nothing is
  assumed of it. \<^verbatim>\<open>$max\<close> compares and is exact. \<^verbatim>\<open>$round\<close> is the decimal rounding
  of its argument, a tie going to the even neighbour, as the server documents; a value
  of two decimals stands for the double nearest to it.
\<close>

record 'u summary =
  count :: nat
  avgTemperature :: rat
  maxTemperature :: rat
  avgHumidity :: rat
  maxHumidity :: rat
  uniqueDevices :: 'u

type_synonym SiteSummaryResponseDto = "nat summary"

definition match_stage :: "string \<Rightarrow> int \<Rightarrow> int \<Rightarrow> TelemetryDocument list \<Rightarrow> TelemetryDocument list" where
  "match_stage site fromDate toDate docs =
     filter (\<lambda>d. siteId d = site \<and> fromDate \<le> ts d \<and> ts d \<le> toDate) docs"

definition max_list :: "rat list \<Rightarrow> rat" where
  "max_list xs = fold max (tl xs) (hd xs)"

definition group_stage ::
  "(rat list \<Rightarrow> rat) \<Rightarrow> TelemetryDocument list \<Rightarrow> string list summary list" where
  "group_stage server_avg docs =
     (if docs = [] then []
      else [\<lparr>count = length docs,
             avgTemperature = server_avg (map (\<lambda>d. temperature (metrics d)) docs),
             maxTemperature = max_list (map (\<lambda>d. temperature (metrics d)) docs),
             avgHumidity = server_avg (map (\<lambda>d. humidity (metrics d)) docs),
             maxHumidity = max_list (map (\<lambda>d. humidity (metrics d)) docs),
             uniqueDevices = remdups (map deviceId docs)\<rparr>])"

definition round_half_even :: "rat \<Rightarrow> int" where
  "round_half_even x =
     (let f = \<lfloor>x\<rfloor>; d = x - of_int f
      in if d < 1 / 2 then f else if 1 / 2 < d then f + 1 else if even f then f else f + 1)"

definition mongo_round :: "rat \<Rightarrow> nat \<Rightarrow> rat" where
  "mongo_round x places = of_int (round_half_even (x * 10 ^ places)) / 10 ^ places"

definition project_stage :: "string list summary \<Rightarrow> SiteSummaryResponseDto" where
  "project_stage g =
     \<lparr>count = count g,
      avgTemperature = mongo_round (avgTemperature g) 2,
      maxTemperature = mongo_round (maxTemperature g) 2,
      avgHumidity = mongo_round (avgHumidity g) 2,
      maxHumidity = mongo_round (maxHumidity g) 2,
      uniqueDevices = length (uniqueDevices g)\<rparr>"

definition aggregate ::
  "(rat list \<Rightarrow> rat) \<Rightarrow> string \<Rightarrow> int \<Rightarrow> int \<Rightarrow>
   (telemetry_model, SiteSummaryResponseDto list) promise" where
  "aggregate server_avg site fromDate toDate =
     (\<lambda>m. case read_error m of
             Some message \<Rightarrow> (Inl (StorageError message), m\<lparr>reads := reads m + 1\<rparr>)
           | None \<Rightarrow>
               (Inr (map project_stage
                       (group_stage server_avg
                          (match_stage site fromDate toDate (collection m)))),
                m\<lparr>reads := reads m + 1\<rparr>))"

section \<open>The webhook\<close>

text \<open>
  \<^verbatim>\<open>AlertDto\<close> is the payload; its fields carry the prefix \<open>alert_\<close> here. The HTTP
  client is outside the repository: \<open>respond\<close> gives what happens to the n-th
  request, an answer with a status or none (network error, timeout). The client resolves
  on a status from 200 to 299 and rejects on everything else, with the answer in the
  error when there is one. Every request made is recorded in \<open>requests\<close>.
\<close>

record AlertDto =
  alert_deviceId :: string
  alert_siteId :: string
  alert_ts :: string
  alert_reason :: AlertReason
  alert_value :: rat

datatype http_outcome = Responded nat string | NoResponse string

record http_service =
  respond :: "nat \<Rightarrow> string \<Rightarrow> AlertDto \<Rightarrow> http_outcome"
  requests :: "(string \<times> AlertDto) list"

definition http_post :: "string \<Rightarrow> AlertDto \<Rightarrow> (http_service, nat) promise" where
  "http_post url body =
     (\<lambda>h. let h' = h\<lparr>requests := requests h @ [(url, body)]\<rparr>
          in case respond h (length (requests h)) url body of
               Responded status statusText \<Rightarrow>
                 if 200 \<le> status \<and> status < 300 then (Inr status, h')
                 else (Inl (AxiosError ''Request failed'' (Some (status, statusText))), h')
             | NoResponse message \<Rightarrow> (Inl (AxiosError message None), h'))"

section \<open>The services' shared state\<close>

text \<open>
  \<^verbatim>\<open>ingestTelemetry\<close> starts two calls for every reading and awaits neither:
  \<^verbatim>\<open>cacheLatestReading(reading, doc)\<close> and
  \<^verbatim>\<open>checkAndAlert(deviceId, siteId, ts, temperature, humidity)\<close>. A call that has been
  started and not awaited is a \<open>task\<close>; the state records the started tasks in the order
  in which they were started. How the event loop interleaves them with each other and
  with later requests depends on the timing of the replies of Redis and of the webhook
  and is not modelled.
\<close>

datatype task =
    CacheLatestReading TelemetryDto "TelemetryDocument option"
  | CheckAndAlert string string string rat rat

record world =
  redisService :: redis_service
  httpService :: http_service
  telemetryModel :: telemetry_model
  pending :: "task list"

definition start :: "task \<Rightarrow> world \<Rightarrow> world" where
  "start t w = w\<lparr>pending := pending w @ [t]\<rparr>"

definition on_redis :: "(redis_service, 'a) promise \<Rightarrow> (world, 'a) promise" where
  "on_redis p = (\<lambda>w. case p (redisService w) of (res, r') \<Rightarrow> (res, w\<lparr>redisService := r'\<rparr>))"

definition on_http :: "(http_service, 'a) promise \<Rightarrow> (world, 'a) promise" where
  "on_http p = (\<lambda>w. case p (httpService w) of (res, h') \<Rightarrow> (res, w\<lparr>httpService := h'\<rparr>))"

definition on_model :: "(telemetry_model, 'a) promise \<Rightarrow> (world, 'a) promise" where
  "on_model p = (\<lambda>w. case p (telemetryModel w) of (res, m') \<Rightarrow> (res, w\<lparr>telemetryModel := m'\<rparr>))"

text \<open>A \<^verbatim>\<open>for\<close> loop whose body is awaited: a rejection ends it.\<close>

fun for_each :: "('a \<Rightarrow> ('s, unit) promise) \<Rightarrow> 'a list \<Rightarrow> ('s, unit) promise" where
  "for_each body [] = resolve ()"
| "for_each body (x # xs) = await_then (body x) (\<lambda>_. for_each body xs)"

section \<open>AlertService (alert/alert.service.ts)\<close>

text \<open>
  The constructor reads the two settings with \<^verbatim>\<open>|| ''\<close> and \<^verbatim>\<open>|| 60\<close>: a missing
  value and a zero window both give the default.
\<close>

record alert_service =
  webhookUrl :: string
  dedupWindow :: int

definition AlertService :: "string option \<Rightarrow> int option \<Rightarrow> alert_service" where
  "AlertService url window =
     \<lparr>webhookUrl = (case url of None \<Rightarrow> [] | Some u \<Rightarrow> u),
      dedupWindow = (case window of None \<Rightarrow> 60 | Some n \<Rightarrow> if n = 0 then 60 else n)\<rparr>"

definition TEMPERATURE_THRESHOLD :: rat where
  "TEMPERATURE_THRESHOLD = 50"

definition HUMIDITY_THRESHOLD :: rat where
  "HUMIDITY_THRESHOLD = 90"

definition shouldSendAlert :: "string \<Rightarrow> AlertReason \<Rightarrow> (world, bool) promise" where
  "shouldSendAlert dev reason =
     await_then (on_redis (wasAlertRecentlySent dev reason))
       (\<lambda>wasRecentlySent. resolve (\<not> wasRecentlySent))"

definition sendAlert :: "alert_service \<Rightarrow> AlertDto \<Rightarrow> (world, unit) promise" where
  "sendAlert svc alert =
     try_catch
       (await_then (on_http (http_post (webhookUrl svc) alert)) (\<lambda>response. resolve ()))
       (\<lambda>error. resolve ())"

text \<open>
  \<^verbatim>\<open>checkAndAlert(deviceId, siteId, ts, temperature, humidity)\<close>. The local array
  \<^verbatim>\<open>alerts\<close> is the value passed from one block to the next.
\<close>

definition checkAndAlert ::
  "alert_service \<Rightarrow> string \<Rightarrow> string \<Rightarrow> string \<Rightarrow> rat \<Rightarrow> rat \<Rightarrow> (world, unit) promise" where
  "checkAndAlert svc dev site stamp temp hum =
     await_then
       (if temp > TEMPERATURE_THRESHOLD then
          await_then (shouldSendAlert dev HIGH_TEMPERATURE)
            (\<lambda>shouldSend.
               if shouldSend then
                 await_then (on_redis (markAlertSent dev HIGH_TEMPERATURE (dedupWindow svc)))
                   (\<lambda>_. resolve
                          [\<lparr>alert_deviceId = dev, alert_siteId = site, alert_ts = stamp,
                            alert_reason = HIGH_TEMPERATURE, alert_value = temp\<rparr>])
               else resolve [])
        else resolve [])
       (\<lambda>alerts1.
          await_then
            (if hum > HUMIDITY_THRESHOLD then
               await_then (shouldSendAlert dev HIGH_HUMIDITY)
                 (\<lambda>shouldSend.
                    if shouldSend then
                      await_then (on_redis (markAlertSent dev HIGH_HUMIDITY (dedupWindow svc)))
                        (\<lambda>_. resolve
                               (alerts1 @
                                [\<lparr>alert_deviceId = dev, alert_siteId = site, alert_ts = stamp,
                                  alert_reason = HIGH_HUMIDITY, alert_value = hum\<rparr>]))
                    else resolve alerts1)
             else resolve alerts1)
            (\<lambda>alerts. for_each (sendAlert svc) alerts))"

section \<open>TelemetryService (telemetry/telemetry.service.ts)\<close>

definition nth_opt :: "'a list \<Rightarrow> nat \<Rightarrow> 'a option" where
  "nth_opt xs i = (if i < length xs then Some (xs ! i) else None)"

definition cacheData :: "TelemetryDto \<Rightarrow> TelemetryDocument \<Rightarrow> js_value" where
  "cacheData r doc =
     JObj [(''deviceId'', JStr (deviceId r)),
           (''siteId'', JStr (siteId r)),
           (''ts'', JStr (ts r)),
           (''metrics'', metrics_value (metrics r)),
           (''_id'', JStr (oid doc)),
           (''createdAt'', JDate (createdAt doc))]"

text \<open>
  \<^verbatim>\<open>documents[i]\<close> is \<^verbatim>\<open>undefined\<close> beyond the end of the array, and reading
  \<^verbatim>\<open>_id\<close> of it throws inside the \<^verbatim>\<open>async\<close> function.
\<close>

definition cacheLatestReading ::
  "(js_value \<Rightarrow> string option) \<Rightarrow> TelemetryDto \<Rightarrow> TelemetryDocument option \<Rightarrow> (world, unit) promise" where
  "cacheLatestReading stringify r doc =
     (case doc of
        None \<Rightarrow> reject (TypeError ''Cannot read properties of undefined'')
      | Some d \<Rightarrow> on_redis (cacheLatest stringify (deviceId r) (cacheData r d) 86400))"

text \<open>
  The loop of \<^verbatim>\<open>ingestTelemetry\<close> starts the two tasks of each reading, in order, and
  the documents are returned without waiting for any of them.
\<close>

definition ingestTelemetry ::
  "(string \<Rightarrow> int) \<Rightarrow> TelemetryDto list \<Rightarrow> (world, TelemetryDocument list) promise" where
  "ingestTelemetry new_Date readings =
     await_then
       (on_model
          (insertMany
             (map (\<lambda>r. \<lparr>deviceId = deviceId r, siteId = siteId r,
                         ts = new_Date (ts r), metrics = metrics r\<rparr>) readings)))
       (\<lambda>documents w.
          (Inr documents,
           fold (\<lambda>i w'.
                   start (CheckAndAlert (deviceId (readings ! i)) (siteId (readings ! i))
                            (ts (readings ! i)) (temperature (metrics (readings ! i)))
                            (humidity (metrics (readings ! i))))
                     (start (CacheLatestReading (readings ! i) (nth_opt documents i)) w'))
             [0..<length readings] w))"

text \<open>
  What a started task does when it runs: the call with the \<^verbatim>\<open>.catch\<close> that
  \<^verbatim>\<open>ingestTelemetry\<close> attaches to it, on the injected alert service and with the
  language's \<^verbatim>\<open>JSON.stringify\<close>.
\<close>

definition run_task ::
  "alert_service \<Rightarrow> (js_value \<Rightarrow> string option) \<Rightarrow> task \<Rightarrow> (world, unit) promise" where
  "run_task svc stringify t =
     (case t of
        CacheLatestReading r doc \<Rightarrow>
          try_catch (cacheLatestReading stringify r doc) (\<lambda>error. resolve ())
      | CheckAndAlert dev site stamp temp hum \<Rightarrow>
          try_catch (checkAndAlert svc dev site stamp temp hum) (\<lambda>error. resolve ()))"

definition TelemetryService_getLatest ::
  "(string \<Rightarrow> js_value option) \<Rightarrow> (js_value \<Rightarrow> string option) \<Rightarrow> string \<Rightarrow>
   (world, js_value) promise" where
  "TelemetryService_getLatest parse stringify dev =
     await_then (on_redis (getLatest parse dev))
       (\<lambda>cached.
          if truthy cached then resolve cached
          else
            await_then (on_model (findOne_latest dev))
              (\<lambda>latest.
                 case latest of
                   None \<Rightarrow>
                     reject (NotFoundException (''No telemetry data found for device: '' @ dev))
                 | Some d \<Rightarrow>
                     await_then
                       (try_catch (on_redis (cacheLatest stringify dev (lean d) 86400))
                          (\<lambda>error. resolve ()))
                       (\<lambda>_. resolve (lean d))))"

definition empty_statistics :: SiteSummaryResponseDto where
  "empty_statistics =
     \<lparr>count = 0, avgTemperature = 0, maxTemperature = 0, avgHumidity = 0, maxHumidity = 0,
      uniqueDevices = 0\<rparr>"

definition getSiteSummary ::
  "(string \<Rightarrow> int) \<Rightarrow> (rat list \<Rightarrow> rat) \<Rightarrow> string \<Rightarrow> string \<Rightarrow> string \<Rightarrow>
   (world, SiteSummaryResponseDto) promise" where
  "getSiteSummary new_Date server_avg site from to =
     await_then (on_model (aggregate server_avg site (new_Date from) (new_Date to)))
       (\<lambda>result. case result of [] \<Rightarrow> resolve empty_statistics | row # _ \<Rightarrow> resolve row)"

section \<open>TelemetryController (telemetry/telemetry.controller.ts)\<close>

text \<open>
  The three shapes of the request body and the answer of \<^verbatim>\<open>POST /telemetry\<close>; the
  \<^verbatim>\<open>message\<close> of the answer repeats \<open>accepted\<close> and is left out. \<open>accepted\<close> is the
  field \<^verbatim>\<open>count\<close> of the answer.
\<close>

datatype payload = Single TelemetryDto | Bulk "TelemetryDto list" | Array "TelemetryDto list"

record ingest_response =
  success :: bool
  accepted :: nat

fun normalize :: "payload \<Rightarrow> TelemetryDto list" where
  "normalize (Array rs) = rs"
| "normalize (Bulk rs) = rs"
| "normalize (Single r) = [r]"

definition TelemetryController_ingestTelemetry ::
  "(string \<Rightarrow> int) \<Rightarrow> payload \<Rightarrow> (world, ingest_response) promise" where
  "TelemetryController_ingestTelemetry new_Date body =
     await_then (ingestTelemetry new_Date (normalize body))
       (\<lambda>result. resolve \<lparr>success = True, accepted = length result\<rparr>)"

section \<open>What a call did\<close>

text \<open>
  Notions used to state the properties: the dedup check reports a marker; the dedup step
  of one reason (check, then mark unless a marker is reported); the requests made to the
  webhook and the commands sent to Redis between two states; the alert built for a
  reason; the metric of a reason is above its threshold; time passing in Redis; the
  value \<open>getLatest\<close> of the cache resolves with; a state with the cached reading of a
  device removed.
\<close>

definition reported :: "redis_service \<Rightarrow> string \<Rightarrow> AlertReason \<Rightarrow> bool" where
  "reported r dev reason = (fst (wasAlertRecentlySent dev reason r) = Inr True)"

definition dedup_step :: "string \<Rightarrow> AlertReason \<Rightarrow> int \<Rightarrow> redis_service \<Rightarrow> redis_service" where
  "dedup_step dev reason window r =
     (if reported r dev reason then snd (wasAlertRecentlySent dev reason r)
      else snd (markAlertSent dev reason window (snd (wasAlertRecentlySent dev reason r))))"

definition delivered :: "world \<Rightarrow> world \<Rightarrow> (string \<times> AlertDto) list" where
  "delivered w w' = drop (length (requests (httpService w))) (requests (httpService w'))"

definition commands :: "world \<Rightarrow> world \<Rightarrow> redis_cmd list" where
  "commands w w' =
     drop (length (issued (client (redisService w)))) (issued (client (redisService w')))"

definition alert_of :: "string \<Rightarrow> string \<Rightarrow> string \<Rightarrow> AlertReason \<Rightarrow> rat \<Rightarrow> AlertDto" where
  "alert_of dev site stamp reason v =
     \<lparr>alert_deviceId = dev, alert_siteId = site, alert_ts = stamp,
      alert_reason = reason, alert_value = v\<rparr>"

definition exceeds :: "AlertReason \<Rightarrow> rat \<Rightarrow> rat \<Rightarrow> bool" where
  "exceeds reason temp hum =
     (case reason of
        HIGH_TEMPERATURE \<Rightarrow> temp > TEMPERATURE_THRESHOLD
      | HIGH_HUMIDITY \<Rightarrow> hum > HUMIDITY_THRESHOLD)"

definition tick :: "int \<Rightarrow> world \<Rightarrow> world" where
  "tick secs w =
     w\<lparr>redisService := (redisService w)\<lparr>client := advance secs (client (redisService w))\<rparr>\<rparr>"

definition cached_value :: "(string \<Rightarrow> js_value option) \<Rightarrow> string \<Rightarrow> redis_service \<Rightarrow> js_value" where
  "cached_value parse dev r = (case fst (getLatest parse dev r) of Inr v \<Rightarrow> v | Inl e \<Rightarrow> JNull)"

definition evict :: "string \<Rightarrow> world \<Rightarrow> world" where
  "evict dev w =
     w\<lparr>redisService := (redisService w)
          \<lparr>client := (client (redisService w))
             \<lparr>kv := (kv (client (redisService w)))(latest_key dev := None)\<rparr>\<rparr>\<rparr>"

section \<open>Example states\<close>

text \<open>
  A connected service whose client rejects every command, although a dedup marker and a
  cached reading for device \<open>d1\<close> are in the store; a connected service with an empty
  store whose client rejects nothing; webhooks that accept, that time out, and that
  time out on the first request only; an empty collection and one that rejects writes;
  two readings and three stored documents; the mean of a list, which is what double
  arithmetic gives on the lists of the examples (25 and 30, 60 and 70, a single value);
  a connected service that rejects the existence check of a marker it holds;
  a cache with a well-formed entry for \<open>d1\<close> and corrupt entries for \<open>d3\<close> and \<open>d9\<close>;
  stand-ins for \<^verbatim>\<open>new Date\<close>, \<^verbatim>\<open>JSON.stringify\<close> and \<^verbatim>\<open>JSON.parse\<close> on the
  strings of the examples; a dispatcher with the default window of 60 seconds.
\<close>

definition down_redis :: redis_service where
  "down_redis =
     \<lparr>client = \<lparr>kv = [''alert:d1:HIGH_TEMPERATURE'' \<mapsto> (''1'', 60),
                      ''latest:d1'' \<mapsto> (''{}'', 86400)],
                now = 0, rejects = (\<lambda>cmd. True), issued = []\<rparr>,
      isConnected = True\<rparr>"

definition fresh_redis :: redis_service where
  "fresh_redis =
     \<lparr>client = \<lparr>kv = Map.empty, now = 1000, rejects = (\<lambda>cmd. False), issued = []\<rparr>,
      isConnected = True\<rparr>"

definition ok_webhook :: http_service where
  "ok_webhook = \<lparr>respond = (\<lambda>n url a. Responded 200 ''OK''), requests = []\<rparr>"

definition failing_webhook :: http_service where
  "failing_webhook =
     \<lparr>respond = (\<lambda>n url a. NoResponse ''timeout of 5000ms exceeded''), requests = []\<rparr>"

definition empty_model :: telemetry_model where
  "empty_model =
     \<lparr>collection = [], objectId = (\<lambda>n. replicate (Suc n) CHR ''a''), clock = 1000000,
      write_error = None, read_error = None, reads = 0\<rparr>"

definition world0 :: world where
  "world0 =
     \<lparr>redisService = fresh_redis, httpService = ok_webhook, telemetryModel = empty_model,
      pending = []\<rparr>"

definition offline_world :: world where
  "offline_world = world0\<lparr>redisService := fresh_redis\<lparr>isConnected := False\<rparr>\<rparr>"

definition flaky_world :: world where
  "flaky_world =
     \<lparr>redisService =
        \<lparr>client = \<lparr>kv = [''alert:d1:HIGH_TEMPERATURE'' \<mapsto> (''1'', 1030)], now = 1000,
                   rejects = (\<lambda>cmd. cmd = Exists ''alert:d1:HIGH_TEMPERATURE''),
                   issued = []\<rparr>,
         isConnected = True\<rparr>,
      httpService = ok_webhook,
      telemetryModel = empty_model,
      pending = []\<rparr>"

definition degraded_world :: world where
  "degraded_world =
     \<lparr>redisService = down_redis, httpService = failing_webhook, telemetryModel = empty_model,
      pending = []\<rparr>"

definition full_disk_world :: world where
  "full_disk_world =
     world0\<lparr>telemetryModel := empty_model\<lparr>write_error := Some ''no space left''\<rparr>\<rparr>"

definition svc0 :: alert_service where
  "svc0 = AlertService (Some ''http://hooks.test/alerts'') None"

definition first_fails_webhook :: http_service where
  "first_fails_webhook =
     \<lparr>respond = (\<lambda>n url a. if n = 0 then NoResponse ''timeout of 5000ms exceeded''
                            else Responded 200 ''OK''),
      requests = []\<rparr>"

definition first_fails_world :: world where
  "first_fails_world = world0\<lparr>httpService := first_fails_webhook\<rparr>"

definition example_avg :: "rat list \<Rightarrow> rat" where
  "example_avg xs = sum_list xs / of_nat (length xs)"

definition example_Date :: "string \<Rightarrow> int" where
  "example_Date s =
     (if s = ''2025-10-01T00:00:00.000Z'' then 1759276800000
      else if s = ''2025-10-01T10:00:00.000Z'' then 1759312800000
      else if s = ''2025-10-02T00:00:00.000Z'' then 1759363200000
      else 0)"

definition example_stringify :: "js_value \<Rightarrow> string option" where
  "example_stringify v = (case v of JObj fs \<Rightarrow> Some ''{...}'' | _ \<Rightarrow> None)"

definition example_parse :: "string \<Rightarrow> js_value option" where
  "example_parse s =
     (if s = ''[25,60]'' then Some (JArr [JNum 25, JNum 60]) else None)"

definition reading1 :: TelemetryDto where
  "reading1 =
     \<lparr>deviceId = ''d1'', siteId = ''site-A'', ts = ''2025-10-01T00:00:00.000Z'',
      metrics = \<lparr>temperature = 25, humidity = 60\<rparr>\<rparr>"

definition reading3 :: TelemetryDto where
  "reading3 =
     \<lparr>deviceId = ''d1'', siteId = ''site-A'', ts = ''2025-10-01T10:00:00.000Z'',
      metrics = \<lparr>temperature = 65, humidity = 95\<rparr>\<rparr>"

definition doc1 :: TelemetryDocument where
  "doc1 =
     \<lparr>deviceId = ''d1'', siteId = ''site-A'', ts = 1759276800000,
      metrics = \<lparr>temperature = 25, humidity = 60\<rparr>,
      oid = ''a'', createdAt = 1000000, updatedAt = 1000000\<rparr>"

definition doc2 :: TelemetryDocument where
  "doc2 =
     \<lparr>deviceId = ''d2'', siteId = ''site-A'', ts = 1759363200000,
      metrics = \<lparr>temperature = 30, humidity = 70\<rparr>,
      oid = ''aa'', createdAt = 1000000, updatedAt = 1000000\<rparr>"

definition doc3 :: TelemetryDocument where
  "doc3 =
     \<lparr>deviceId = ''d3'', siteId = ''site-C'', ts = 1759312800000,
      metrics = \<lparr>temperature = 30456 / 1000, humidity = 60\<rparr>,
      oid = ''aaa'', createdAt = 1000000, updatedAt = 1000000\<rparr>"

definition site_world :: world where
  "site_world = world0\<lparr>telemetryModel := empty_model\<lparr>collection := [doc1, doc2, doc3]\<rparr>\<rparr>"

definition cached_world :: world where
  "cached_world =
     \<lparr>redisService =
        \<lparr>client = \<lparr>kv = [''latest:d1'' \<mapsto> (''[25,60]'', 87400),
                         ''latest:d3'' \<mapsto> (''[25,'', 87400),
                         ''latest:d9'' \<mapsto> (''<html>'', 87400)],
                   now = 1000, rejects = (\<lambda>cmd. False), issued = []\<rparr>,
         isConnected = True\<rparr>,
      httpService = ok_webhook,
      telemetryModel = empty_model\<lparr>collection := [doc1, doc2, doc3]\<rparr>,
      pending = []\<rparr>"

section \<open>The cache operations in closed form\<close>

lemmas promise_defs = resolve_def reject_def await_then_def try_catch_def

lemma resolve_apply: "resolve v s = (Inr v, s)"
  by (simp add: resolve_def)

lemma reject_apply: "reject e s = (Inl e, s)"
  by (simp add: reject_def)

lemma try_catch_unit: "fst (try_catch p (\<lambda>error. resolve ()) s) = Inr ()"
  by (simp add: try_catch_def resolve_def split: prod.splits sum.splits)

lemma wasAlertRecentlySent_eq:
  "wasAlertRecentlySent dev reason r =
     (if \<not> isConnected r then (Inr False, r)
      else (Inr (\<not> rejects (client r) (Exists (alert_key dev reason))
                 \<and> live (client r) (alert_key dev reason)),
            r\<lparr>client := issue (Exists (alert_key dev reason)) (client r)\<rparr>))"
  by (simp add: wasAlertRecentlySent_def promise_defs on_client_def client_exists_def)

lemma markAlertSent_eq:
  "markAlertSent dev reason w r =
     (if \<not> isConnected r then (Inr (), r)
      else if rejects (client r) (Setex (alert_key dev reason) w ''1'') \<or> w \<le> 0
      then (Inr (), r\<lparr>client := issue (Setex (alert_key dev reason) w ''1'') (client r)\<rparr>)
      else (Inr (), r\<lparr>client := (issue (Setex (alert_key dev reason) w ''1'') (client r))
                \<lparr>kv := (kv (client r))(alert_key dev reason \<mapsto> (''1'', now (client r) + w))\<rparr>\<rparr>))"
  by (simp add: markAlertSent_def promise_defs on_client_def client_setex_def)

lemma cacheLatest_eq:
  "cacheLatest stringify dev data ttl r =
     (if \<not> isConnected r then (Inr (), r)
      else case stringify data of
        None \<Rightarrow> (Inr (), r)
      | Some s \<Rightarrow>
          if rejects (client r) (Setex (latest_key dev) ttl s) \<or> ttl \<le> 0
          then (Inr (), r\<lparr>client := issue (Setex (latest_key dev) ttl s) (client r)\<rparr>)
          else (Inr (), r\<lparr>client := (issue (Setex (latest_key dev) ttl s) (client r))
                  \<lparr>kv := (kv (client r))(latest_key dev \<mapsto> (s, now (client r) + ttl))\<rparr>\<rparr>))"
  by (simp add: cacheLatest_def promise_defs on_client_def client_setex_def json_stringify_def
      split: option.splits)

lemma getLatest_eq:
  "getLatest parse dev r =
     (if \<not> isConnected r then (Inr JNull, r)
      else (Inr (if rejects (client r) (Get (latest_key dev)) then JNull
                 else case kv (client r) (latest_key dev) of
                   None \<Rightarrow> JNull
                 | Some (s, expiry) \<Rightarrow>
                     if now (client r) < expiry \<and> s \<noteq> []
                     then (case parse s of None \<Rightarrow> JNull | Some v \<Rightarrow> v) else JNull),
            r\<lparr>client := issue (Get (latest_key dev)) (client r)\<rparr>))"
  by (simp add: getLatest_def promise_defs on_client_def client_get_def json_parse_def
      split: option.splits)

lemma kv_issue: "kv (issue cmd c) = kv c"
  by (simp add: issue_def)

section \<open>The alert dispatcher in closed form\<close>

lemma reported_iff:
  "reported r dev reason \<longleftrightarrow>
     isConnected r \<and> \<not> rejects (client r) (Exists (alert_key dev reason))
     \<and> live (client r) (alert_key dev reason)"
  by (simp add: reported_def wasAlertRecentlySent_eq)

lemma shouldSendAlert_eq:
  "shouldSendAlert dev reason w =
     (Inr (\<not> reported (redisService w) dev reason),
      w\<lparr>redisService := snd (wasAlertRecentlySent dev reason (redisService w))\<rparr>)"
  by (simp add: shouldSendAlert_def promise_defs on_redis_def reported_def
      wasAlertRecentlySent_eq)

lemma on_redis_markAlertSent:
  "on_redis (markAlertSent dev reason window) w =
     (Inr (), w\<lparr>redisService := snd (markAlertSent dev reason window (redisService w))\<rparr>)"
  by (simp add: on_redis_def markAlertSent_eq)

lemma sendAlert_eq:
  "sendAlert svc a w =
     (Inr (), w\<lparr>httpService := (httpService w)
                  \<lparr>requests := requests (httpService w) @ [(webhookUrl svc, a)]\<rparr>\<rparr>)"
  by (simp add: sendAlert_def promise_defs on_http_def http_post_def Let_def
      split: http_outcome.splits)

lemma for_each_sendAlert:
  "for_each (sendAlert svc) alerts w =
     (Inr (), w\<lparr>httpService := (httpService w)
                  \<lparr>requests := requests (httpService w) @ map (Pair (webhookUrl svc)) alerts\<rparr>\<rparr>)"
proof (induction alerts arbitrary: w)
  case Nil
  show ?case by (simp add: resolve_def)
next
  case (Cons a alerts)
  show ?case
    unfolding for_each.simps await_then_def
    by (simp add: sendAlert_eq [of svc a w] Cons.IH)
qed

lemma checkAndAlert_eq:
  "checkAndAlert svc dev site stamp temp hum w =
     (let r0 = redisService w;
          sendT = (temp > TEMPERATURE_THRESHOLD \<and> \<not> reported r0 dev HIGH_TEMPERATURE);
          r1 = (if temp > TEMPERATURE_THRESHOLD
                then dedup_step dev HIGH_TEMPERATURE (dedupWindow svc) r0 else r0);
          sendH = (hum > HUMIDITY_THRESHOLD \<and> \<not> reported r1 dev HIGH_HUMIDITY);
          r2 = (if hum > HUMIDITY_THRESHOLD
                then dedup_step dev HIGH_HUMIDITY (dedupWindow svc) r1 else r1);
          alerts = (if sendT then [alert_of dev site stamp HIGH_TEMPERATURE temp] else [])
                   @ (if sendH then [alert_of dev site stamp HIGH_HUMIDITY hum] else [])
      in (Inr (), w\<lparr>redisService := r2,
                     httpService := (httpService w)
                       \<lparr>requests := requests (httpService w)
                                     @ map (Pair (webhookUrl svc)) alerts\<rparr>\<rparr>))"
  by (simp add: checkAndAlert_def await_then_def resolve_def shouldSendAlert_eq
      on_redis_markAlertSent sendAlert_eq dedup_step_def alert_of_def Let_def)

lemma alert_keys_differ: "alert_key dev HIGH_TEMPERATURE \<noteq> alert_key dev HIGH_HUMIDITY"
  by (simp add: alert_key_def)

lemma dedup_step_frame:
  "isConnected (dedup_step dev reason window r) = isConnected r"
  "rejects (client (dedup_step dev reason window r)) = rejects (client r)"
  "now (client (dedup_step dev reason window r)) = now (client r)"
  by (simp_all add: dedup_step_def wasAlertRecentlySent_eq markAlertSent_eq issue_def)

lemma dedup_step_kv:
  "kv (client (dedup_step dev reason window r)) =
     (if isConnected r \<and> \<not> reported r dev reason
         \<and> \<not> rejects (client r) (Setex (alert_key dev reason) window ''1'') \<and> 0 < window
      then (kv (client r))(alert_key dev reason \<mapsto> (''1'', now (client r) + window))
      else kv (client r))"
  by (simp add: dedup_step_def wasAlertRecentlySent_eq markAlertSent_eq issue_def)

lemma dedup_step_issued:
  "issued (client (dedup_step dev reason window r)) =
     issued (client r) @
     (if isConnected r
      then Exists (alert_key dev reason) #
           (if reported r dev reason then [] else [Setex (alert_key dev reason) window ''1''])
      else [])"
  by (simp add: dedup_step_def wasAlertRecentlySent_eq markAlertSent_eq issue_def)

lemma dedup_step_live_other:
  "k \<noteq> alert_key dev reason \<Longrightarrow>
     live (client (dedup_step dev reason window r)) k = live (client r) k"
  by (simp add: live_def dedup_step_kv dedup_step_frame split: option.splits)

lemma reported_after_other:
  "reported (dedup_step dev HIGH_TEMPERATURE window r) dev HIGH_HUMIDITY
     = reported r dev HIGH_HUMIDITY"
  using alert_keys_differ [of dev]
  by (simp add: reported_iff dedup_step_frame dedup_step_live_other)

subsection \<open>What checkAndAlert delivers, issues and stores\<close>

lemma checkAndAlert_resolves: "fst (checkAndAlert svc dev site stamp temp hum w) = Inr ()"
  by (simp add: checkAndAlert_eq Let_def)

lemma checkAndAlert_delivered:
  "delivered w (snd (checkAndAlert svc dev site stamp temp hum w)) =
     map (Pair (webhookUrl svc))
       ((if temp > TEMPERATURE_THRESHOLD \<and> \<not> reported (redisService w) dev HIGH_TEMPERATURE
         then [alert_of dev site stamp HIGH_TEMPERATURE temp] else [])
        @ (if hum > HUMIDITY_THRESHOLD \<and> \<not> reported (redisService w) dev HIGH_HUMIDITY
           then [alert_of dev site stamp HIGH_HUMIDITY hum] else []))"
  by (simp add: checkAndAlert_eq Let_def delivered_def reported_after_other)

lemma checkAndAlert_commands:
  "commands w (snd (checkAndAlert svc dev site stamp temp hum w)) =
     (if temp > TEMPERATURE_THRESHOLD \<and> isConnected (redisService w)
      then Exists (alert_key dev HIGH_TEMPERATURE) #
           (if reported (redisService w) dev HIGH_TEMPERATURE then []
            else [Setex (alert_key dev HIGH_TEMPERATURE) (dedupWindow svc) ''1''])
      else [])
     @ (if hum > HUMIDITY_THRESHOLD \<and> isConnected (redisService w)
        then Exists (alert_key dev HIGH_HUMIDITY) #
             (if reported (redisService w) dev HIGH_HUMIDITY then []
              else [Setex (alert_key dev HIGH_HUMIDITY) (dedupWindow svc) ''1''])
        else [])"
  by (simp add: checkAndAlert_eq Let_def commands_def dedup_step_issued dedup_step_frame
      reported_after_other)

lemma checkAndAlert_kv:
  "kv (client (redisService (snd (checkAndAlert svc dev site stamp temp hum w)))) =
     (let r = redisService w; c = client r; window = dedupWindow svc;
          kT = alert_key dev HIGH_TEMPERATURE; kH = alert_key dev HIGH_HUMIDITY;
          m1 = (if temp > TEMPERATURE_THRESHOLD \<and> isConnected r
                   \<and> \<not> reported r dev HIGH_TEMPERATURE
                   \<and> \<not> rejects c (Setex kT window ''1'') \<and> 0 < window
                then (kv c)(kT \<mapsto> (''1'', now c + window)) else kv c)
      in if hum > HUMIDITY_THRESHOLD \<and> isConnected r \<and> \<not> reported r dev HIGH_HUMIDITY
            \<and> \<not> rejects c (Setex kH window ''1'') \<and> 0 < window
         then m1(kH \<mapsto> (''1'', now c + window)) else m1)"
  by (simp add: checkAndAlert_eq Let_def dedup_step_kv dedup_step_frame reported_after_other)

lemma kv_after_checkAndAlert:
  "kv (client (redisService (snd (checkAndAlert svc dev site stamp temp hum w))))
      (alert_key dev reason) =
     (if exceeds reason temp hum \<and> isConnected (redisService w)
         \<and> \<not> reported (redisService w) dev reason
         \<and> \<not> rejects (client (redisService w))
               (Setex (alert_key dev reason) (dedupWindow svc) ''1'')
         \<and> 0 < dedupWindow svc
      then Some (''1'', now (client (redisService w)) + dedupWindow svc)
      else kv (client (redisService w)) (alert_key dev reason))"
  using alert_keys_differ [of dev]
  by (cases reason) (auto simp add: checkAndAlert_kv Let_def exceeds_def)

lemma checkAndAlert_frame:
  "isConnected (redisService (snd (checkAndAlert svc dev site stamp temp hum w)))
     = isConnected (redisService w)"
  "rejects (client (redisService (snd (checkAndAlert svc dev site stamp temp hum w))))
     = rejects (client (redisService w))"
  "now (client (redisService (snd (checkAndAlert svc dev site stamp temp hum w))))
     = now (client (redisService w))"
  "telemetryModel (snd (checkAndAlert svc dev site stamp temp hum w)) = telemetryModel w"
  "respond (httpService (snd (checkAndAlert svc dev site stamp temp hum w)))
     = respond (httpService w)"
  by (simp_all add: checkAndAlert_eq Let_def dedup_step_frame)

lemma delivered_reason:
  "(\<exists>x \<in> set (delivered w (snd (checkAndAlert svc dev site stamp temp hum w))).
        alert_reason (snd x) = reason)
     \<longleftrightarrow> exceeds reason temp hum \<and> \<not> reported (redisService w) dev reason"
  by (cases reason) (auto simp add: checkAndAlert_delivered exceeds_def alert_of_def)

lemma tick_simps:
  "isConnected (redisService (tick secs w)) = isConnected (redisService w)"
  "rejects (client (redisService (tick secs w))) = rejects (client (redisService w))"
  "kv (client (redisService (tick secs w))) = kv (client (redisService w))"
  "now (client (redisService (tick secs w))) = now (client (redisService w)) + secs"
  "httpService (tick secs w) = httpService w"
  "telemetryModel (tick secs w) = telemetryModel w"
  by (simp_all add: tick_def advance_def)

section \<open>Ingestion, summary and latest reading in closed form\<close>

lemma run_task_resolves: "fst (run_task svc stringify t s) = Inr ()"
  by (cases t) (simp_all add: run_task_def try_catch_unit)

lemma run_task_collection:
  "telemetryModel (snd (run_task svc stringify t s)) = telemetryModel s"
proof (cases t)
  case (CacheLatestReading r doc)
  then show ?thesis
    by (cases doc)
       (simp_all add: run_task_def try_catch_def cacheLatestReading_def reject_def resolve_def
          on_redis_def cacheLatest_eq split: option.splits)
next
  case (CheckAndAlert dev site stamp temp hum)
  obtain s1 where run: "checkAndAlert svc dev site stamp temp hum s = (Inr (), s1)"
    using checkAndAlert_resolves [of svc dev site stamp temp hum s]
    by (cases "checkAndAlert svc dev site stamp temp hum s") simp
  have "telemetryModel s1 = telemetryModel s"
    using checkAndAlert_frame(4) [of svc dev site stamp temp hum s] by (simp add: run)
  then show ?thesis
    using CheckAndAlert by (simp add: run_task_def try_catch_def run)
qed

lemma started_fields:
  "pending (fold (\<lambda>i w'. start (B i) (start (A i) w')) js w)
     = pending w @ concat (map (\<lambda>i. [A i, B i]) js)"
  "telemetryModel (fold (\<lambda>i w'. start (B i) (start (A i) w')) js w) = telemetryModel w"
  "redisService (fold (\<lambda>i w'. start (B i) (start (A i) w')) js w) = redisService w"
  "httpService (fold (\<lambda>i w'. start (B i) (start (A i) w')) js w) = httpService w"
  by (induction js arbitrary: w) (simp_all add: start_def)

lemma ingestTelemetry_eq:
  "ingestTelemetry new_Date readings w =
     (case insertMany (map (\<lambda>r. \<lparr>deviceId = deviceId r, siteId = siteId r,
                                   ts = new_Date (ts r), metrics = metrics r\<rparr>) readings)
             (telemetryModel w) of
        (Inl e, m') \<Rightarrow> (Inl e, w\<lparr>telemetryModel := m'\<rparr>)
      | (Inr documents, m') \<Rightarrow>
          (Inr documents,
           fold (\<lambda>i w'.
                   start (CheckAndAlert (deviceId (readings ! i)) (siteId (readings ! i))
                            (ts (readings ! i)) (temperature (metrics (readings ! i)))
                            (humidity (metrics (readings ! i))))
                     (start (CacheLatestReading (readings ! i) (nth_opt documents i)) w'))
             [0..<length readings] (w\<lparr>telemetryModel := m'\<rparr>)))"
  by (simp add: ingestTelemetry_def await_then_def on_model_def split: prod.splits sum.splits)

lemma ingestTelemetry_fst:
  "fst (ingestTelemetry new_Date readings w) =
     fst (insertMany (map (\<lambda>r. \<lparr>deviceId = deviceId r, siteId = siteId r,
                                  ts = new_Date (ts r), metrics = metrics r\<rparr>) readings)
            (telemetryModel w))"
  by (simp add: ingestTelemetry_eq split: prod.splits sum.splits)

lemma controller_fst:
  "fst (TelemetryController_ingestTelemetry new_Date body w) =
     (case fst (ingestTelemetry new_Date (normalize body) w) of
        Inl e \<Rightarrow> Inl e
      | Inr result \<Rightarrow> Inr \<lparr>success = True, accepted = length result\<rparr>)"
  by (simp add: TelemetryController_ingestTelemetry_def await_then_def resolve_def
      split: prod.splits sum.splits)


lemma getSiteSummary_fst:
  "fst (getSiteSummary new_Date server_avg site from to w) =
     (case read_error (telemetryModel w) of
        Some message \<Rightarrow> Inl (StorageError message)
      | None \<Rightarrow>
          Inr (case group_stage server_avg
                      (match_stage site (new_Date from) (new_Date to)
                         (collection (telemetryModel w))) of
                 [] \<Rightarrow> empty_statistics
               | g # _ \<Rightarrow> project_stage g))"
  by (simp add: getSiteSummary_def await_then_def on_model_def aggregate_def resolve_def
      split: option.splits list.splits)




lemma greatest_ts_None: "greatest_ts ds = None \<longleftrightarrow> ds = []"
  by (induction ds) (auto split: option.splits)

lemma greatest_ts_Some:
  "greatest_ts ds = Some d \<Longrightarrow> d \<in> set ds \<and> (\<forall>e \<in> set ds. ts e \<le> ts d)"
proof (induction ds arbitrary: d)
  case Nil
  then show ?case by simp
next
  case (Cons a ds)
  show ?case
  proof (cases "greatest_ts ds")
    case None
    then show ?thesis using Cons.prems by (simp add: greatest_ts_None)
  next
    case (Some e)
    then show ?thesis
      using Cons.prems Cons.IH [of e] by (auto split: if_splits)
  qed
qed

lemma repopulate:
  "try_catch (on_redis (cacheLatest stringify dev v ttl)) (\<lambda>error. resolve ()) w =
     (Inr (), w\<lparr>redisService := snd (cacheLatest stringify dev v ttl (redisService w))\<rparr>)"
  by (simp add: try_catch_def on_redis_def resolve_def cacheLatest_eq split: option.splits)

lemma on_redis_getLatest:
  "on_redis (getLatest parse dev) w =
     (Inr (cached_value parse dev (redisService w)),
      w\<lparr>redisService := snd (getLatest parse dev (redisService w))\<rparr>)"
  by (simp add: on_redis_def getLatest_eq cached_value_def)

lemma on_model_findOne:
  "on_model (findOne_latest dev) w =
     (case read_error (telemetryModel w) of
        Some message \<Rightarrow> Inl (StorageError message)
      | None \<Rightarrow> Inr (greatest_ts (filter (\<lambda>d. deviceId d = dev) (collection (telemetryModel w)))),
      w\<lparr>telemetryModel := (telemetryModel w)\<lparr>reads := reads (telemetryModel w) + 1\<rparr>\<rparr>)"
  by (simp add: on_model_def findOne_latest_def split: option.splits)

lemma TelemetryService_getLatest_eq:
  "TelemetryService_getLatest parse stringify dev w =
     (let cached = cached_value parse dev (redisService w);
          w1 = w\<lparr>redisService := snd (getLatest parse dev (redisService w))\<rparr>;
          w2 = w1\<lparr>telemetryModel := (telemetryModel w)\<lparr>reads := reads (telemetryModel w) + 1\<rparr>\<rparr>
      in if truthy cached then (Inr cached, w1)
         else case read_error (telemetryModel w) of
                Some message \<Rightarrow> (Inl (StorageError message), w2)
              | None \<Rightarrow>
                  (case greatest_ts (filter (\<lambda>d. deviceId d = dev)
                                       (collection (telemetryModel w))) of
                     None \<Rightarrow>
                       (Inl (NotFoundException (''No telemetry data found for device: '' @ dev)),
                        w2)
                   | Some d \<Rightarrow>
                       (Inr (lean d),
                        w2\<lparr>redisService :=
                             snd (cacheLatest stringify dev (lean d) 86400 (redisService w1))\<rparr>)))"
  by (simp add: TelemetryService_getLatest_def await_then_def on_redis_getLatest
      on_model_findOne repopulate resolve_apply reject_apply Let_def
      split: option.splits)

lemma cached_value_evict: "cached_value parse dev (redisService (evict dev w)) = JNull"
  by (simp add: cached_value_def getLatest_eq evict_def)

subsection \<open>The example states\<close>

lemma svc0_simps: "webhookUrl svc0 = ''http://hooks.test/alerts''" "dedupWindow svc0 = 60"
  by (simp_all add: svc0_def AlertService_def)

lemma world0_simps:
  "redisService world0 = fresh_redis" "httpService world0 = ok_webhook"
  "isConnected fresh_redis" "kv (client fresh_redis) = Map.empty"
  "rejects (client fresh_redis) = (\<lambda>cmd. False)" "now (client fresh_redis) = 1000"
  by (simp_all add: world0_def fresh_redis_def)

lemma not_reported_fresh: "\<not> reported fresh_redis dev reason"
  by (simp add: reported_iff live_def world0_simps)

lemma site_world_simps:
  "read_error (telemetryModel site_world) = None"
  "collection (telemetryModel site_world) = [doc1, doc2, doc3]"
  by (simp_all add: site_world_def world0_def empty_model_def)

lemma cached_world_simps:
  "isConnected (redisService cached_world)"
  "rejects (client (redisService cached_world)) = (\<lambda>cmd. False)"
  "now (client (redisService cached_world)) = 1000"
  "kv (client (redisService cached_world)) ''latest:d1'' = Some (''[25,60]'', 87400)"
  "kv (client (redisService cached_world)) ''latest:d2'' = None"
  "kv (client (redisService cached_world)) ''latest:d3'' = Some (''[25,'', 87400)"
  "kv (client (redisService cached_world)) ''latest:d9'' = Some (''<html>'', 87400)"
  "read_error (telemetryModel cached_world) = None"
  "collection (telemetryModel cached_world) = [doc1, doc2, doc3]"
  by (simp_all add: cached_world_def empty_model_def)

lemma cached_values:
  "cached_value example_parse ''d1'' (redisService cached_world) = JArr [JNum 25, JNum 60]"
  "cached_value example_parse ''d2'' (redisService cached_world) = JNull"
  "cached_value example_parse ''d3'' (redisService cached_world) = JNull"
  "cached_value example_parse ''d9'' (redisService cached_world) = JNull"
  by (simp_all add: cached_value_def getLatest_eq latest_key_def cached_world_simps
      example_parse_def)

section \<open>Ingestion\<close>

text \<open>
  Claim C1. When the batched insert succeeds, \<open>ingestTelemetry\<close> resolves with one
  document per reading of the batch, in order, and the controller answers with the length
  of the batch as its count; the cache task and the alert task of every reading have been
  started and none has been awaited. It rejects if and only if \<open>insertMany\<close> rejects,
  with the same error, which is the storage error of the collection. The result is a
  function of the collection's state alone: with the same collection, any other state of
  the cache, of the webhook and of the started tasks gives the same result. Every task,
  run in whatever state with whatever alert service and \<^verbatim>\<open>JSON.stringify\<close>, resolves
  and leaves the collection as it was, so a failure inside it reaches neither the caller
  nor the stored documents.
\<close>

theorem ingest_result:
  "(write_error (telemetryModel w) = None \<longrightarrow>
      (\<exists>docs. fst (ingestTelemetry new_Date readings w) = Inr docs
          \<and> length docs = length readings
          \<and> map deviceId docs = map deviceId readings
          \<and> pending (snd (ingestTelemetry new_Date readings w))
              = pending w @
                concat (map (\<lambda>i. [CacheLatestReading (readings ! i) (Some (docs ! i)),
                                   CheckAndAlert (deviceId (readings ! i)) (siteId (readings ! i))
                                     (ts (readings ! i)) (temperature (metrics (readings ! i)))
                                     (humidity (metrics (readings ! i)))])
                          [0..<length readings]))
      \<and> fst (TelemetryController_ingestTelemetry new_Date body w)
          = Inr \<lparr>success = True, accepted = length (normalize body)\<rparr>)
   \<and> (fst (ingestTelemetry new_Date readings w) = Inl e
        \<longleftrightarrow> fst (insertMany (map (\<lambda>r. \<lparr>deviceId = deviceId r, siteId = siteId r,
                                    ts = new_Date (ts r), metrics = metrics r\<rparr>) readings)
                   (telemetryModel w)) = Inl e)
   \<and> (fst (TelemetryController_ingestTelemetry new_Date body w) = Inl e
        \<longleftrightarrow> write_error (telemetryModel w) \<noteq> None
            \<and> e = StorageError (the (write_error (telemetryModel w))))
   \<and> (telemetryModel w2 = telemetryModel w \<longrightarrow>
        fst (ingestTelemetry new_Date readings w2) = fst (ingestTelemetry new_Date readings w)
        \<and> fst (TelemetryController_ingestTelemetry new_Date body w2)
          = fst (TelemetryController_ingestTelemetry new_Date body w))
   \<and> fst (run_task svc stringify t s) = Inr ()
   \<and> telemetryModel (snd (run_task svc stringify t s)) = telemetryModel s"
proof -
  let ?objs = "map (\<lambda>r. \<lparr>deviceId = deviceId r, siteId = siteId r,
                          ts = new_Date (ts r), metrics = metrics r\<rparr>) readings"
  have started: "write_error (telemetryModel w) = None \<longrightarrow>
      (\<exists>docs. fst (ingestTelemetry new_Date readings w) = Inr docs
          \<and> length docs = length readings
          \<and> map deviceId docs = map deviceId readings
          \<and> pending (snd (ingestTelemetry new_Date readings w))
              = pending w @
                concat (map (\<lambda>i. [CacheLatestReading (readings ! i) (Some (docs ! i)),
                                   CheckAndAlert (deviceId (readings ! i)) (siteId (readings ! i))
                                     (ts (readings ! i)) (temperature (metrics (readings ! i)))
                                     (humidity (metrics (readings ! i)))])
                          [0..<length readings]))"
  proof
    assume ok: "write_error (telemetryModel w) = None"
    obtain docs m' where ins: "insertMany ?objs (telemetryModel w) = (Inr docs, m')"
      using ok by (simp add: insertMany_def Let_def)
    have len: "length docs = length readings"
      using ins ok by (auto simp add: insertMany_def Let_def)
    have devs: "map deviceId docs = map deviceId readings"
      using ins ok
      by (auto simp add: insertMany_def Let_def stored_def intro!: nth_equalityI)
    have opt: "\<And>i. i \<in> set [0..<length readings] \<Longrightarrow> nth_opt docs i = Some (docs ! i)"
      using len by (simp add: nth_opt_def)
    have "pending (snd (ingestTelemetry new_Date readings w))
        = pending w @
          concat (map (\<lambda>i. [CacheLatestReading (readings ! i) (nth_opt docs i),
                             CheckAndAlert (deviceId (readings ! i)) (siteId (readings ! i))
                               (ts (readings ! i)) (temperature (metrics (readings ! i)))
                               (humidity (metrics (readings ! i)))])
                    [0..<length readings])"
      by (simp add: ingestTelemetry_eq ins started_fields)
    also have "map (\<lambda>i. [CacheLatestReading (readings ! i) (nth_opt docs i),
                             CheckAndAlert (deviceId (readings ! i)) (siteId (readings ! i))
                               (ts (readings ! i)) (temperature (metrics (readings ! i)))
                               (humidity (metrics (readings ! i)))])
                    [0..<length readings]
        = map (\<lambda>i. [CacheLatestReading (readings ! i) (Some (docs ! i)),
                             CheckAndAlert (deviceId (readings ! i)) (siteId (readings ! i))
                               (ts (readings ! i)) (temperature (metrics (readings ! i)))
                               (humidity (metrics (readings ! i)))])
                    [0..<length readings]"
      using opt by (intro map_cong) simp_all
    finally show "\<exists>docs. fst (ingestTelemetry new_Date readings w) = Inr docs
          \<and> length docs = length readings
          \<and> map deviceId docs = map deviceId readings
          \<and> pending (snd (ingestTelemetry new_Date readings w))
              = pending w @
                concat (map (\<lambda>i. [CacheLatestReading (readings ! i) (Some (docs ! i)),
                                   CheckAndAlert (deviceId (readings ! i)) (siteId (readings ! i))
                                     (ts (readings ! i)) (temperature (metrics (readings ! i)))
                                     (humidity (metrics (readings ! i)))])
                          [0..<length readings])"
      using len devs by (intro exI [of _ docs]) (simp add: ingestTelemetry_fst ins)
  qed
  have answer: "write_error (telemetryModel w) = None \<longrightarrow>
      fst (TelemetryController_ingestTelemetry new_Date body w)
          = Inr \<lparr>success = True, accepted = length (normalize body)\<rparr>"
    by (simp add: controller_fst ingestTelemetry_fst insertMany_def Let_def)
  have fails: "fst (TelemetryController_ingestTelemetry new_Date body w) = Inl e
        \<longleftrightarrow> write_error (telemetryModel w) \<noteq> None
            \<and> e = StorageError (the (write_error (telemetryModel w)))"
    by (auto simp add: controller_fst ingestTelemetry_fst insertMany_def Let_def
        split: option.splits)
  have same: "telemetryModel w2 = telemetryModel w \<longrightarrow>
        fst (ingestTelemetry new_Date readings w2) = fst (ingestTelemetry new_Date readings w)
        \<and> fst (TelemetryController_ingestTelemetry new_Date body w2)
          = fst (TelemetryController_ingestTelemetry new_Date body w)"
    by (simp add: controller_fst ingestTelemetry_fst)
  show ?thesis
    using started answer fails same
    by (simp add: ingestTelemetry_fst run_task_resolves run_task_collection)
qed

theorem ingest_result_witness:
  "write_error (telemetryModel world0) = None
   \<and> fst (TelemetryController_ingestTelemetry example_Date (Array [reading1, reading3]) world0)
       = Inr \<lparr>success = True, accepted = 2\<rparr>
   \<and> telemetryModel degraded_world = telemetryModel world0
   \<and> fst (TelemetryController_ingestTelemetry example_Date (Array [reading1, reading3])
            degraded_world)
       = Inr \<lparr>success = True, accepted = 2\<rparr>
   \<and> fst (TelemetryController_ingestTelemetry example_Date (Single reading3) full_disk_world)
       = Inl (StorageError ''no space left'')
   \<and> fst (run_task svc0 (\<lambda>v. None)
            (CheckAndAlert ''d1'' ''site-A'' ''2025-10-01T10:00:00.000Z'' 65 95) degraded_world)
       = Inr ()
   \<and> fst (run_task svc0 (\<lambda>v. None) (CacheLatestReading reading3 None) degraded_world) = Inr ()"
  using ingest_result [where w = world0 and body = "Array [reading1, reading3]"
      and new_Date = example_Date and ?w2.0 = degraded_world
      and readings = "[reading1, reading3]" and e = "StorageError ''no space left''"
      and svc = svc0 and stringify = "\<lambda>v. None" and s = degraded_world
      and t = "CheckAndAlert ''d1'' ''site-A'' ''2025-10-01T10:00:00.000Z'' 65 95"]
    ingest_result [where w = full_disk_world and body = "Single reading3"
      and new_Date = example_Date and ?w2.0 = full_disk_world
      and readings = "[reading3]" and e = "StorageError ''no space left''"
      and svc = svc0 and stringify = "\<lambda>v. None" and s = degraded_world
      and t = "CacheLatestReading reading3 None"]
  by (simp add: world0_def degraded_world_def full_disk_world_def empty_model_def)

section \<open>Thresholds\<close>

text \<open>
  Claim C2. A \<open>HIGH_TEMPERATURE\<close> alert is delivered exactly when the temperature is
  strictly above 50 and the dedup check reports no marker, and a \<open>HIGH_HUMIDITY\<close> alert
  exactly when the humidity is strictly above 90 and the dedup check reports no marker;
  when the service is connected, the dedup check of a reason is made exactly when its
  metric is strictly above its threshold. So a temperature of exactly 50 or a humidity
  of exactly 90 gives no alert and no dedup check for that reason.
\<close>

theorem threshold_candidates:
  "((\<exists>x \<in> set (delivered w (snd (checkAndAlert svc dev site stamp temp hum w))).
        alert_reason (snd x) = HIGH_TEMPERATURE)
      \<longleftrightarrow> 50 < temp \<and> \<not> reported (redisService w) dev HIGH_TEMPERATURE)
   \<and> ((\<exists>x \<in> set (delivered w (snd (checkAndAlert svc dev site stamp temp hum w))).
        alert_reason (snd x) = HIGH_HUMIDITY)
      \<longleftrightarrow> 90 < hum \<and> \<not> reported (redisService w) dev HIGH_HUMIDITY)
   \<and> (isConnected (redisService w) \<longrightarrow>
        (Exists (alert_key dev HIGH_TEMPERATURE)
           \<in> set (commands w (snd (checkAndAlert svc dev site stamp temp hum w)))
         \<longleftrightarrow> 50 < temp)
      \<and> (Exists (alert_key dev HIGH_HUMIDITY)
           \<in> set (commands w (snd (checkAndAlert svc dev site stamp temp hum w)))
         \<longleftrightarrow> 90 < hum))"
  using alert_keys_differ [of dev]
  by (auto simp add: checkAndAlert_delivered checkAndAlert_commands alert_of_def
      TEMPERATURE_THRESHOLD_def HUMIDITY_THRESHOLD_def)

theorem threshold_candidates_witness:
  "delivered world0 (snd (checkAndAlert svc0 ''d1'' ''s1'' ''t1'' 50 90 world0)) = []
   \<and> commands world0 (snd (checkAndAlert svc0 ''d1'' ''s1'' ''t1'' 50 90 world0)) = []
   \<and> delivered world0
        (snd (checkAndAlert svc0 ''d1'' ''s1'' ''t1'' (500001 / 10000) (900001 / 10000) world0))
      = [(''http://hooks.test/alerts'',
          \<lparr>alert_deviceId = ''d1'', alert_siteId = ''s1'', alert_ts = ''t1'',
           alert_reason = HIGH_TEMPERATURE, alert_value = 500001 / 10000\<rparr>),
         (''http://hooks.test/alerts'',
          \<lparr>alert_deviceId = ''d1'', alert_siteId = ''s1'', alert_ts = ''t1'',
           alert_reason = HIGH_HUMIDITY, alert_value = 900001 / 10000\<rparr>)]"
  using threshold_candidates [of world0 svc0 "''d1''" "''s1''" "''t1''" 50 90]
    threshold_candidates [of world0 svc0 "''d1''" "''s1''" "''t1''" "500001 / 10000" "900001 / 10000"]
  by (simp add: checkAndAlert_delivered checkAndAlert_commands alert_of_def svc0_simps
      world0_simps not_reported_fresh TEMPERATURE_THRESHOLD_def HUMIDITY_THRESHOLD_def)

section \<open>When the dedup marker is written\<close>

text \<open>
  Claim C3, as amended. For every reading and reason, the marker write
  \<^verbatim>\<open>SETEX alert:<deviceId>:<reason> <window> 1\<close> is issued if and only if the metric
  exceeds its threshold, the service is connected and the dedup check reports no marker;
  when the service is connected and the existence check is not rejected, that is: if and
  only if the metric exceeds its threshold and no live marker exists. A write that is
  not rejected, with a positive window, leaves the marker with the expiry now + window.
  When the metric is not above the threshold or the alert is suppressed, no write to
  that key is issued, the stored marker and its expiry are unchanged, and no alert of
  that reason is delivered; when the metric is not above the threshold there is no
  dedup check either.
\<close>

theorem marker_write_frame:
  "(Setex (alert_key dev reason) (dedupWindow svc) ''1''
        \<in> set (commands w (snd (checkAndAlert svc dev site stamp temp hum w)))
      \<longleftrightarrow> exceeds reason temp hum \<and> isConnected (redisService w)
          \<and> \<not> reported (redisService w) dev reason)
   \<and> (isConnected (redisService w)
        \<and> \<not> rejects (client (redisService w)) (Exists (alert_key dev reason))
      \<longrightarrow> (Setex (alert_key dev reason) (dedupWindow svc) ''1''
              \<in> set (commands w (snd (checkAndAlert svc dev site stamp temp hum w)))
            \<longleftrightarrow> exceeds reason temp hum
                \<and> \<not> live (client (redisService w)) (alert_key dev reason)))
   \<and> (Setex (alert_key dev reason) (dedupWindow svc) ''1''
        \<in> set (commands w (snd (checkAndAlert svc dev site stamp temp hum w)))
        \<and> \<not> rejects (client (redisService w))
              (Setex (alert_key dev reason) (dedupWindow svc) ''1'')
        \<and> 0 < dedupWindow svc
      \<longrightarrow> kv (client (redisService (snd (checkAndAlert svc dev site stamp temp hum w))))
             (alert_key dev reason)
           = Some (''1'', now (client (redisService w)) + dedupWindow svc))
   \<and> (\<not> exceeds reason temp hum \<or> reported (redisService w) dev reason
      \<longrightarrow> (\<forall>ttl v. Setex (alert_key dev reason) ttl v
                \<notin> set (commands w (snd (checkAndAlert svc dev site stamp temp hum w))))
          \<and> kv (client (redisService (snd (checkAndAlert svc dev site stamp temp hum w))))
               (alert_key dev reason)
             = kv (client (redisService w)) (alert_key dev reason)
          \<and> (\<forall>x \<in> set (delivered w (snd (checkAndAlert svc dev site stamp temp hum w))).
                alert_reason (snd x) \<noteq> reason))
   \<and> (\<not> exceeds reason temp hum
      \<longrightarrow> Exists (alert_key dev reason)
            \<notin> set (commands w (snd (checkAndAlert svc dev site stamp temp hum w))))"
proof -
  note keys = alert_keys_differ [of dev] alert_keys_differ [of dev, symmetric]
  have cmds: "Setex (alert_key dev reason) (dedupWindow svc) ''1''
        \<in> set (commands w (snd (checkAndAlert svc dev site stamp temp hum w)))
      \<longleftrightarrow> exceeds reason temp hum \<and> isConnected (redisService w)
          \<and> \<not> reported (redisService w) dev reason"
    using keys by (cases reason) (auto simp add: checkAndAlert_commands exceeds_def)
  have healthy: "isConnected (redisService w)
        \<and> \<not> rejects (client (redisService w)) (Exists (alert_key dev reason))
      \<longrightarrow> (reported (redisService w) dev reason
             \<longleftrightarrow> live (client (redisService w)) (alert_key dev reason))"
    by (simp add: reported_iff)
  have none: "\<not> exceeds reason temp hum \<or> reported (redisService w) dev reason
      \<longrightarrow> (\<forall>ttl v. Setex (alert_key dev reason) ttl v
                \<notin> set (commands w (snd (checkAndAlert svc dev site stamp temp hum w))))"
    using keys by (cases reason) (auto simp add: checkAndAlert_commands exceeds_def)
  have quiet: "\<not> exceeds reason temp hum \<or> reported (redisService w) dev reason
      \<longrightarrow> (\<forall>x \<in> set (delivered w (snd (checkAndAlert svc dev site stamp temp hum w))).
                alert_reason (snd x) \<noteq> reason)"
    by (cases reason) (auto simp add: checkAndAlert_delivered exceeds_def alert_of_def)
  have no_check: "\<not> exceeds reason temp hum
      \<longrightarrow> Exists (alert_key dev reason)
            \<notin> set (commands w (snd (checkAndAlert svc dev site stamp temp hum w)))"
    using keys by (cases reason) (auto simp add: checkAndAlert_commands exceeds_def)
  show ?thesis
    using cmds healthy none quiet no_check
    by (simp add: kv_after_checkAndAlert)
qed

theorem marker_write_frame_witness:
  "isConnected (redisService world0)
   \<and> \<not> rejects (client (redisService world0)) (Exists (alert_key ''d1'' HIGH_TEMPERATURE))
   \<and> exceeds HIGH_TEMPERATURE 65 40
   \<and> \<not> live (client (redisService world0)) (alert_key ''d1'' HIGH_TEMPERATURE)
   \<and> Setex (alert_key ''d1'' HIGH_TEMPERATURE) 60 ''1''
        \<in> set (commands world0 (snd (checkAndAlert svc0 ''d1'' ''s1'' ''t1'' 65 40 world0)))
   \<and> kv (client (redisService (snd (checkAndAlert svc0 ''d1'' ''s1'' ''t1'' 65 40 world0))))
        (alert_key ''d1'' HIGH_TEMPERATURE) = Some (''1'', 1060)
   \<and> \<not> exceeds HIGH_HUMIDITY 65 40
   \<and> Exists (alert_key ''d1'' HIGH_HUMIDITY)
        \<notin> set (commands world0 (snd (checkAndAlert svc0 ''d1'' ''s1'' ''t1'' 65 40 world0)))
   \<and> kv (client (redisService (snd (checkAndAlert svc0 ''d1'' ''s1'' ''t1'' 65 40 world0))))
        (alert_key ''d1'' HIGH_HUMIDITY) = None
   \<and> reported (redisService (tick 30 (snd (checkAndAlert svc0 ''d1'' ''s1'' ''t1'' 65 40 world0))))
        ''d1'' HIGH_TEMPERATURE
   \<and> kv (client (redisService
          (snd (checkAndAlert svc0 ''d1'' ''s1'' ''t2'' 70 40
             (tick 30 (snd (checkAndAlert svc0 ''d1'' ''s1'' ''t1'' 65 40 world0)))))))
        (alert_key ''d1'' HIGH_TEMPERATURE) = Some (''1'', 1060)"
proof -
  let ?w1 = "snd (checkAndAlert svc0 ''d1'' ''s1'' ''t1'' 65 40 world0)"
  have over: "exceeds HIGH_TEMPERATURE 65 40" "\<not> exceeds HIGH_HUMIDITY 65 40"
    "exceeds HIGH_TEMPERATURE 70 40"
    by (simp_all add: exceeds_def TEMPERATURE_THRESHOLD_def HUMIDITY_THRESHOLD_def)
  have first: "kv (client (redisService ?w1)) (alert_key ''d1'' HIGH_TEMPERATURE)
      = Some (''1'', 1060)"
    using marker_write_frame [of "''d1''" HIGH_TEMPERATURE svc0 world0 "''s1''" "''t1''" 65 40] over
    by (simp add: world0_simps svc0_simps not_reported_fresh)
  have seen: "reported (redisService (tick 30 ?w1)) ''d1'' HIGH_TEMPERATURE"
    using first
    by (simp add: reported_iff live_def tick_simps checkAndAlert_frame world0_simps)
  show ?thesis
    using marker_write_frame [of "''d1''" HIGH_TEMPERATURE svc0 world0 "''s1''" "''t1''" 65 40]
      marker_write_frame [of "''d1''" HIGH_HUMIDITY svc0 world0 "''s1''" "''t1''" 65 40]
      marker_write_frame [of "''d1''" HIGH_TEMPERATURE svc0 "tick 30 ?w1" "''s1''" "''t2''" 70 40]
      over first seen
    by (simp add: world0_simps svc0_simps not_reported_fresh tick_simps live_def)
qed

text \<open>
  Claim C3 as stated fails in both directions when the cache does not answer. With the
  service disconnected, the temperature 65 exceeds the threshold and no marker exists for
  the device: the alert is delivered, and yet no command reaches Redis and no marker is
  stored. With the service connected and the existence check rejected, a live marker
  exists with expiry 1030: the check counts as no marker, the marker is written again
  and its expiry becomes 1060.
\<close>

theorem marker_written_iff_fails:
  "TEMPERATURE_THRESHOLD < 65
   \<and> kv (client (redisService offline_world)) (alert_key ''d1'' HIGH_TEMPERATURE) = None
   \<and> delivered offline_world (snd (checkAndAlert svc0 ''d1'' ''s1'' ''t1'' 65 40 offline_world))
       = [(''http://hooks.test/alerts'',
           \<lparr>alert_deviceId = ''d1'', alert_siteId = ''s1'', alert_ts = ''t1'',
            alert_reason = HIGH_TEMPERATURE, alert_value = 65\<rparr>)]
   \<and> commands offline_world (snd (checkAndAlert svc0 ''d1'' ''s1'' ''t1'' 65 40 offline_world))
       = []
   \<and> kv (client (redisService (snd (checkAndAlert svc0 ''d1'' ''s1'' ''t1'' 65 40 offline_world))))
        (alert_key ''d1'' HIGH_TEMPERATURE) = None
   \<and> live (client (redisService flaky_world)) (alert_key ''d1'' HIGH_TEMPERATURE)
   \<and> kv (client (redisService flaky_world)) (alert_key ''d1'' HIGH_TEMPERATURE)
       = Some (''1'', 1030)
   \<and> commands flaky_world (snd (checkAndAlert svc0 ''d1'' ''s1'' ''t1'' 65 40 flaky_world))
       = [Exists (alert_key ''d1'' HIGH_TEMPERATURE),
          Setex (alert_key ''d1'' HIGH_TEMPERATURE) 60 ''1'']
   \<and> kv (client (redisService (snd (checkAndAlert svc0 ''d1'' ''s1'' ''t1'' 65 40 flaky_world))))
        (alert_key ''d1'' HIGH_TEMPERATURE) = Some (''1'', 1060)"
  by (simp add: checkAndAlert_delivered checkAndAlert_commands checkAndAlert_kv Let_def
      alert_of_def svc0_simps offline_world_def world0_def fresh_redis_def flaky_world_def
      reported_iff live_def alert_key_def TEMPERATURE_THRESHOLD_def HUMIDITY_THRESHOLD_def)

section \<open>Both thresholds crossed\<close>

text \<open>
  Claim C4. A reading with temperature 65 and humidity 95, for a device with no live
  marker for either reason, gives exactly two alerts, \<open>HIGH_TEMPERATURE\<close> with value 65
  and then \<open>HIGH_HUMIDITY\<close> with value 95. Each reason is checked and marked under its
  own key \<^verbatim>\<open>alert:<deviceId>:<reason>\<close>: a connected service sends the existence check
  and the write for the first key, then for the second, and when the writes are not
  rejected both markers are live afterwards.
\<close>

theorem dual_alert:
  assumes "\<not> live (client (redisService w)) (alert_key dev HIGH_TEMPERATURE)"
    and "\<not> live (client (redisService w)) (alert_key dev HIGH_HUMIDITY)"
  shows "delivered w (snd (checkAndAlert svc dev site stamp 65 95 w)) =
           [(webhookUrl svc,
             \<lparr>alert_deviceId = dev, alert_siteId = site, alert_ts = stamp,
              alert_reason = HIGH_TEMPERATURE, alert_value = 65\<rparr>),
            (webhookUrl svc,
             \<lparr>alert_deviceId = dev, alert_siteId = site, alert_ts = stamp,
              alert_reason = HIGH_HUMIDITY, alert_value = 95\<rparr>)]
         \<and> commands w (snd (checkAndAlert svc dev site stamp 65 95 w)) =
             (if isConnected (redisService w)
              then [Exists (''alert:'' @ dev @ '':HIGH_TEMPERATURE''),
                    Setex (''alert:'' @ dev @ '':HIGH_TEMPERATURE'') (dedupWindow svc) ''1'',
                    Exists (''alert:'' @ dev @ '':HIGH_HUMIDITY''),
                    Setex (''alert:'' @ dev @ '':HIGH_HUMIDITY'') (dedupWindow svc) ''1'']
              else [])
         \<and> (isConnected (redisService w) \<and> 0 < dedupWindow svc
              \<and> \<not> rejects (client (redisService w))
                    (Setex (''alert:'' @ dev @ '':HIGH_TEMPERATURE'') (dedupWindow svc) ''1'')
              \<and> \<not> rejects (client (redisService w))
                    (Setex (''alert:'' @ dev @ '':HIGH_HUMIDITY'') (dedupWindow svc) ''1'')
            \<longrightarrow> live (client (redisService (snd (checkAndAlert svc dev site stamp 65 95 w))))
                   (''alert:'' @ dev @ '':HIGH_TEMPERATURE'')
                \<and> live (client (redisService (snd (checkAndAlert svc dev site stamp 65 95 w))))
                     (''alert:'' @ dev @ '':HIGH_HUMIDITY''))"
proof -
  have no: "\<not> reported (redisService w) dev HIGH_TEMPERATURE"
    "\<not> reported (redisService w) dev HIGH_HUMIDITY"
    using assms by (simp_all add: reported_iff)
  have keys: "''alert:'' @ dev @ '':HIGH_TEMPERATURE'' = alert_key dev HIGH_TEMPERATURE"
    "''alert:'' @ dev @ '':HIGH_HUMIDITY'' = alert_key dev HIGH_HUMIDITY"
    by (simp_all add: alert_key_def)
  have over: "exceeds HIGH_TEMPERATURE 65 95" "exceeds HIGH_HUMIDITY 65 95"
    by (simp_all add: exceeds_def TEMPERATURE_THRESHOLD_def HUMIDITY_THRESHOLD_def)
  show ?thesis
    unfolding keys
    using no over
    by (simp add: checkAndAlert_delivered checkAndAlert_commands alert_of_def live_def
        kv_after_checkAndAlert checkAndAlert_frame
        TEMPERATURE_THRESHOLD_def HUMIDITY_THRESHOLD_def)
qed

theorem dual_alert_witness:
  "\<not> live (client (redisService world0)) (alert_key ''d1'' HIGH_TEMPERATURE)
   \<and> \<not> live (client (redisService world0)) (alert_key ''d1'' HIGH_HUMIDITY)
   \<and> delivered world0 (snd (checkAndAlert svc0 ''d1'' ''s1'' ''t1'' 65 95 world0)) =
           [(''http://hooks.test/alerts'',
             \<lparr>alert_deviceId = ''d1'', alert_siteId = ''s1'', alert_ts = ''t1'',
              alert_reason = HIGH_TEMPERATURE, alert_value = 65\<rparr>),
            (''http://hooks.test/alerts'',
             \<lparr>alert_deviceId = ''d1'', alert_siteId = ''s1'', alert_ts = ''t1'',
              alert_reason = HIGH_HUMIDITY, alert_value = 95\<rparr>)]
   \<and> commands world0 (snd (checkAndAlert svc0 ''d1'' ''s1'' ''t1'' 65 95 world0)) =
        [Exists ''alert:d1:HIGH_TEMPERATURE'', Setex ''alert:d1:HIGH_TEMPERATURE'' 60 ''1'',
         Exists ''alert:d1:HIGH_HUMIDITY'', Setex ''alert:d1:HIGH_HUMIDITY'' 60 ''1'']
   \<and> live (client (redisService (snd (checkAndAlert svc0 ''d1'' ''s1'' ''t1'' 65 95 world0))))
        ''alert:d1:HIGH_TEMPERATURE''
   \<and> live (client (redisService (snd (checkAndAlert svc0 ''d1'' ''s1'' ''t1'' 65 95 world0))))
        ''alert:d1:HIGH_HUMIDITY''"
  using dual_alert [of world0 "''d1''" svc0 "''s1''" "''t1''"]
  by (simp add: live_def world0_simps svc0_simps)

section \<open>Failed deliveries\<close>

text \<open>
  Claim C5. A delivery that fails (no answer, or a status outside 200 to 299) is caught
  in \<open>sendAlert\<close>: it resolves and changes nothing but the record of the request, so
  the marker stays. Whatever the webhook does with this and with later requests, with a
  connected service and no marker yet, \<open>checkAndAlert\<close> for a metric above its threshold
  resolves, attempts the delivery, and leaves the marker with expiry now + window; any
  later reading of the same device before the window has passed resolves too and delivers
  no alert of that reason, so a failed delivery is not retried. The witness is a webhook
  that times out on the first request and answers the later ones.
\<close>

theorem failed_delivery_is_absorbed:
  "(isl (fst (http_post (webhookUrl svc) a (httpService w)))
      \<longrightarrow> sendAlert svc a w
            = (Inr (), w\<lparr>httpService := snd (http_post (webhookUrl svc) a (httpService w))\<rparr>))
   \<and> (exceeds reason temp hum
       \<and> isConnected (redisService w)
       \<and> \<not> rejects (client (redisService w)) (Exists (alert_key dev reason))
       \<and> \<not> rejects (client (redisService w))
             (Setex (alert_key dev reason) (dedupWindow svc) ''1'')
       \<and> 0 < dedupWindow svc
       \<and> \<not> live (client (redisService w)) (alert_key dev reason)
      \<longrightarrow> fst (checkAndAlert svc dev site stamp temp hum w) = Inr ()
          \<and> (\<exists>x \<in> set (delivered w (snd (checkAndAlert svc dev site stamp temp hum w))).
                alert_reason (snd x) = reason)
          \<and> kv (client (redisService (snd (checkAndAlert svc dev site stamp temp hum w))))
               (alert_key dev reason)
             = Some (''1'', now (client (redisService w)) + dedupWindow svc)
          \<and> (\<forall>elapsed site2 stamp2 temp2 hum2.
                0 \<le> elapsed \<and> elapsed < dedupWindow svc \<longrightarrow>
                  fst (checkAndAlert svc dev site2 stamp2 temp2 hum2
                         (tick elapsed (snd (checkAndAlert svc dev site stamp temp hum w))))
                    = Inr ()
                  \<and> (\<forall>x \<in> set (delivered
                               (tick elapsed (snd (checkAndAlert svc dev site stamp temp hum w)))
                               (snd (checkAndAlert svc dev site2 stamp2 temp2 hum2
                                  (tick elapsed
                                     (snd (checkAndAlert svc dev site stamp temp hum w)))))).
                        alert_reason (snd x) \<noteq> reason)))"
proof (intro conjI impI)
  assume "isl (fst (http_post (webhookUrl svc) a (httpService w)))"
  show "sendAlert svc a w
          = (Inr (), w\<lparr>httpService := snd (http_post (webhookUrl svc) a (httpService w))\<rparr>)"
    by (simp add: sendAlert_eq http_post_def Let_def split: http_outcome.splits)
next
  assume h: "exceeds reason temp hum
       \<and> isConnected (redisService w)
       \<and> \<not> rejects (client (redisService w)) (Exists (alert_key dev reason))
       \<and> \<not> rejects (client (redisService w))
             (Setex (alert_key dev reason) (dedupWindow svc) ''1'')
       \<and> 0 < dedupWindow svc
       \<and> \<not> live (client (redisService w)) (alert_key dev reason)"
  let ?w1 = "snd (checkAndAlert svc dev site stamp temp hum w)"
  have no: "\<not> reported (redisService w) dev reason"
    using h by (simp add: reported_iff)
  show "fst (checkAndAlert svc dev site stamp temp hum w) = Inr ()"
    by (rule checkAndAlert_resolves)
  show "\<exists>x \<in> set (delivered w ?w1). alert_reason (snd x) = reason"
    using h no by (simp add: delivered_reason)
  show marker: "kv (client (redisService ?w1)) (alert_key dev reason)
      = Some (''1'', now (client (redisService w)) + dedupWindow svc)"
    using h no by (simp add: kv_after_checkAndAlert)
  show "\<forall>elapsed site2 stamp2 temp2 hum2.
          0 \<le> elapsed \<and> elapsed < dedupWindow svc \<longrightarrow>
            fst (checkAndAlert svc dev site2 stamp2 temp2 hum2 (tick elapsed ?w1)) = Inr ()
            \<and> (\<forall>x \<in> set (delivered (tick elapsed ?w1)
                         (snd (checkAndAlert svc dev site2 stamp2 temp2 hum2 (tick elapsed ?w1)))).
                  alert_reason (snd x) \<noteq> reason)"
  proof (intro allI impI conjI)
    fix elapsed :: int and site2 stamp2 temp2 hum2
    assume e: "0 \<le> elapsed \<and> elapsed < dedupWindow svc"
    show "fst (checkAndAlert svc dev site2 stamp2 temp2 hum2 (tick elapsed ?w1)) = Inr ()"
      by (rule checkAndAlert_resolves)
    have "reported (redisService (tick elapsed ?w1)) dev reason"
      using h e marker by (simp add: reported_iff live_def tick_simps checkAndAlert_frame)
    then show "\<forall>x \<in> set (delivered (tick elapsed ?w1)
                         (snd (checkAndAlert svc dev site2 stamp2 temp2 hum2 (tick elapsed ?w1)))).
                  alert_reason (snd x) \<noteq> reason"
      using delivered_reason [of "tick elapsed ?w1" svc dev site2 stamp2 temp2 hum2 reason]
      by blast
  qed
qed

theorem failed_delivery_is_absorbed_witness:
  "isl (fst (http_post (webhookUrl svc0)
               \<lparr>alert_deviceId = ''d1'', alert_siteId = ''s1'', alert_ts = ''t1'',
                alert_reason = HIGH_TEMPERATURE, alert_value = 65\<rparr>
               (httpService first_fails_world)))
   \<and> fst (sendAlert svc0
            \<lparr>alert_deviceId = ''d1'', alert_siteId = ''s1'', alert_ts = ''t1'',
             alert_reason = HIGH_TEMPERATURE, alert_value = 65\<rparr> first_fails_world) = Inr ()
   \<and> respond (httpService first_fails_world) 1 (webhookUrl svc0)
        \<lparr>alert_deviceId = ''d1'', alert_siteId = ''s1'', alert_ts = ''t2'',
         alert_reason = HIGH_TEMPERATURE, alert_value = 70\<rparr> = Responded 200 ''OK''
   \<and> exceeds HIGH_TEMPERATURE 65 40
   \<and> isConnected (redisService first_fails_world)
   \<and> \<not> live (client (redisService first_fails_world)) (alert_key ''d1'' HIGH_TEMPERATURE)
   \<and> fst (checkAndAlert svc0 ''d1'' ''s1'' ''t1'' 65 40 first_fails_world) = Inr ()
   \<and> delivered first_fails_world
        (snd (checkAndAlert svc0 ''d1'' ''s1'' ''t1'' 65 40 first_fails_world))
       = [(''http://hooks.test/alerts'',
           \<lparr>alert_deviceId = ''d1'', alert_siteId = ''s1'', alert_ts = ''t1'',
            alert_reason = HIGH_TEMPERATURE, alert_value = 65\<rparr>)]
   \<and> kv (client (redisService (snd (checkAndAlert svc0 ''d1'' ''s1'' ''t1'' 65 40
                                       first_fails_world))))
        (alert_key ''d1'' HIGH_TEMPERATURE) = Some (''1'', 1060)
   \<and> delivered (tick 59 (snd (checkAndAlert svc0 ''d1'' ''s1'' ''t1'' 65 40 first_fails_world)))
        (snd (checkAndAlert svc0 ''d1'' ''s1'' ''t2'' 70 40
           (tick 59 (snd (checkAndAlert svc0 ''d1'' ''s1'' ''t1'' 65 40 first_fails_world)))))
       = []"
proof -
  let ?a = "\<lparr>alert_deviceId = ''d1'', alert_siteId = ''s1'', alert_ts = ''t1'',
             alert_reason = HIGH_TEMPERATURE, alert_value = 65\<rparr>"
  have fw: "redisService first_fails_world = fresh_redis"
    "httpService first_fails_world = first_fails_webhook"
    by (simp_all add: first_fails_world_def world0_def)
  have failed: "isl (fst (http_post (webhookUrl svc0) ?a (httpService first_fails_world)))"
    by (simp add: fw first_fails_webhook_def http_post_def)
  have later: "respond (httpService first_fails_world) 1 (webhookUrl svc0)
        \<lparr>alert_deviceId = ''d1'', alert_siteId = ''s1'', alert_ts = ''t2'',
         alert_reason = HIGH_TEMPERATURE, alert_value = 70\<rparr> = Responded 200 ''OK''"
    by (simp add: fw first_fails_webhook_def)
  have hyp: "exceeds HIGH_TEMPERATURE 65 40
       \<and> isConnected (redisService first_fails_world)
       \<and> \<not> rejects (client (redisService first_fails_world))
             (Exists (alert_key ''d1'' HIGH_TEMPERATURE))
       \<and> \<not> rejects (client (redisService first_fails_world))
             (Setex (alert_key ''d1'' HIGH_TEMPERATURE) (dedupWindow svc0) ''1'')
       \<and> 0 < dedupWindow svc0
       \<and> \<not> live (client (redisService first_fails_world)) (alert_key ''d1'' HIGH_TEMPERATURE)"
    by (simp add: fw world0_simps exceeds_def TEMPERATURE_THRESHOLD_def live_def svc0_simps)
  note caught = failed_delivery_is_absorbed
    [of svc0 ?a first_fails_world HIGH_TEMPERATURE 65 40 "''d1''" "''s1''" "''t1''",
     THEN conjunct1, THEN mp, OF failed]
  note main = failed_delivery_is_absorbed
    [of svc0 ?a first_fails_world HIGH_TEMPERATURE 65 40 "''d1''" "''s1''" "''t1''",
     THEN conjunct2, THEN mp, OF hyp]
  note later_reading = main [THEN conjunct2, THEN conjunct2, THEN conjunct2,
     THEN spec [where x = 59], THEN spec [where x = "''s1''"], THEN spec [where x = "''t2''"],
     THEN spec [where x = 70], THEN spec [where x = 40]]
  let ?w1 = "snd (checkAndAlert svc0 ''d1'' ''s1'' ''t1'' 65 40 first_fails_world)"
  have quiet: "\<forall>x \<in> set (delivered (tick 59 ?w1)
                   (snd (checkAndAlert svc0 ''d1'' ''s1'' ''t2'' 70 40 (tick 59 ?w1)))).
                 alert_reason (snd x) \<noteq> HIGH_TEMPERATURE"
    using later_reading by (simp add: svc0_simps)
  have none: "delivered (tick 59 ?w1)
                (snd (checkAndAlert svc0 ''d1'' ''s1'' ''t2'' 70 40 (tick 59 ?w1))) = []"
    using quiet
    by (simp add: checkAndAlert_delivered alert_of_def HUMIDITY_THRESHOLD_def split: if_splits)
  have sent: "delivered first_fails_world ?w1 = [(''http://hooks.test/alerts'', ?a)]"
    by (simp add: checkAndAlert_delivered alert_of_def fw not_reported_fresh svc0_simps
        TEMPERATURE_THRESHOLD_def HUMIDITY_THRESHOLD_def)
  show ?thesis
    using failed later hyp caught main none sent
    by (simp add: svc0_simps fw world0_simps)
qed

section \<open>Failures of the cache\<close>

text \<open>
  Claim C6. When the service is disconnected or the client rejects the command, the
  dedup check answers false (also when a marker is in the store), \<open>getLatest\<close> answers
  null as it does for an absent key, and \<open>cacheLatest\<close> and \<open>markAlertSent\<close> resolve
  and leave every stored value as it was (the whole state, when disconnected). None of
  the four operations rejects, in any state and for any behaviour of
  \<^verbatim>\<open>JSON.stringify\<close> and \<^verbatim>\<open>JSON.parse\<close>.
\<close>

theorem cache_failure_is_absorbed:
  "(\<not> isConnected r \<or> rejects (client r) (Exists (alert_key dev reason))
      \<longrightarrow> fst (wasAlertRecentlySent dev reason r) = Inr False)
   \<and> (\<not> isConnected r \<or> rejects (client r) (Get (latest_key dev))
        \<or> kv (client r) (latest_key dev) = None
      \<longrightarrow> fst (getLatest parse dev r) = Inr JNull)
   \<and> (\<not> isConnected r \<or> stringify data = None
        \<or> (\<exists>s. stringify data = Some s \<and> rejects (client r) (Setex (latest_key dev) ttl s))
      \<longrightarrow> fst (cacheLatest stringify dev data ttl r) = Inr ()
          \<and> kv (client (snd (cacheLatest stringify dev data ttl r))) = kv (client r))
   \<and> (\<not> isConnected r \<or> rejects (client r) (Setex (alert_key dev reason) window ''1'')
      \<longrightarrow> fst (markAlertSent dev reason window r) = Inr ()
          \<and> kv (client (snd (markAlertSent dev reason window r))) = kv (client r))
   \<and> (\<not> isConnected r
      \<longrightarrow> snd (wasAlertRecentlySent dev reason r) = r \<and> snd (getLatest parse dev r) = r
          \<and> snd (cacheLatest stringify dev data ttl r) = r
          \<and> snd (markAlertSent dev reason window r) = r)
   \<and> \<not> isl (fst (wasAlertRecentlySent dev reason r))
   \<and> \<not> isl (fst (getLatest parse dev r))
   \<and> \<not> isl (fst (cacheLatest stringify dev data ttl r))
   \<and> \<not> isl (fst (markAlertSent dev reason window r))"
  by (auto simp add: wasAlertRecentlySent_eq getLatest_eq cacheLatest_eq markAlertSent_eq kv_issue
      split: option.splits)

theorem cache_failure_is_absorbed_witness:
  "isConnected down_redis
   \<and> rejects (client down_redis) (Exists (alert_key ''d1'' HIGH_TEMPERATURE))
   \<and> live (client down_redis) (alert_key ''d1'' HIGH_TEMPERATURE)
   \<and> fst (wasAlertRecentlySent ''d1'' HIGH_TEMPERATURE down_redis) = Inr False
   \<and> kv (client down_redis) (latest_key ''d1'') = Some (''{}'', 86400)
   \<and> fst (getLatest (\<lambda>s. Some (JObj [])) ''d1'' down_redis) = Inr JNull
   \<and> fst (cacheLatest (\<lambda>v. Some ''[]'') ''d1'' (JArr []) 86400 down_redis) = Inr ()
   \<and> kv (client (snd (cacheLatest (\<lambda>v. Some ''[]'') ''d1'' (JArr []) 86400 down_redis)))
       = kv (client down_redis)
   \<and> fst (markAlertSent ''d1'' HIGH_TEMPERATURE 60 down_redis) = Inr ()
   \<and> kv (client (snd (markAlertSent ''d1'' HIGH_TEMPERATURE 60 down_redis)))
       = kv (client down_redis)"
  using cache_failure_is_absorbed [of down_redis "''d1''" HIGH_TEMPERATURE
      "\<lambda>s. Some (JObj [])" "\<lambda>v. Some ''[]''" "JArr []" 86400 60]
  by (simp add: down_redis_def alert_key_def latest_key_def live_def)

section \<open>Site summary\<close>

text \<open>
  Claim C7. When the collection answers and holds no document of the site with a
  timestamp in the closed interval, \<open>getSiteSummary\<close> resolves with the count 0 and the
  number 0 in every other field, whatever the server's \<^verbatim>\<open>$avg\<close> is.
\<close>

theorem empty_summary:
  assumes "read_error (telemetryModel w) = None"
    and "\<forall>d \<in> set (collection (telemetryModel w)).
           \<not> (siteId d = site \<and> new_Date from \<le> ts d \<and> ts d \<le> new_Date to)"
  shows "fst (getSiteSummary new_Date server_avg site from to w) =
           Inr \<lparr>count = 0, avgTemperature = 0, maxTemperature = 0, avgHumidity = 0,
                maxHumidity = 0, uniqueDevices = 0\<rparr>"
proof -
  have "match_stage site (new_Date from) (new_Date to) (collection (telemetryModel w)) = []"
    using assms(2) by (simp add: match_stage_def filter_empty_conv)
  then show ?thesis
    using assms(1) by (simp add: getSiteSummary_fst group_stage_def empty_statistics_def)
qed

theorem empty_summary_witness:
  "read_error (telemetryModel site_world) = None
   \<and> collection (telemetryModel site_world) = [doc1, doc2, doc3]
   \<and> siteId doc1 \<noteq> ''site-B'' \<and> siteId doc2 \<noteq> ''site-B'' \<and> siteId doc3 \<noteq> ''site-B''
   \<and> fst (getSiteSummary example_Date example_avg ''site-B'' ''2025-10-01T00:00:00.000Z''
             ''2025-10-02T00:00:00.000Z'' site_world)
       = Inr \<lparr>count = 0, avgTemperature = 0, maxTemperature = 0, avgHumidity = 0,
              maxHumidity = 0, uniqueDevices = 0\<rparr>"
  using empty_summary [of site_world "''site-B''" example_Date "''2025-10-01T00:00:00.000Z''"
      "''2025-10-02T00:00:00.000Z''" example_avg]
  by (simp add: site_world_simps doc1_def doc2_def doc3_def)




section \<open>Latest reading\<close>

text \<open>
  Claim C9. When the cache answers with a truthy value, \<open>TelemetryService_getLatest\<close>
  resolves with that value and the collection is left as it was, its count of reads
  included. When the cache misses and the collection answers and holds a document of the
  device, it resolves with such a document of greatest timestamp, and the cache is left
  as \<open>cacheLatest\<close> of that document leaves it. When the collection answers, the call
  rejects with \<open>NotFoundException\<close> if and only if the cache misses and the collection
  holds no document of the device.
\<close>

theorem latest_reading:
  "(truthy (cached_value parse dev (redisService w)) \<longrightarrow>
      fst (TelemetryService_getLatest parse stringify dev w)
        = Inr (cached_value parse dev (redisService w))
      \<and> telemetryModel (snd (TelemetryService_getLatest parse stringify dev w))
          = telemetryModel w)
   \<and> (\<not> truthy (cached_value parse dev (redisService w))
        \<and> read_error (telemetryModel w) = None
        \<and> (\<exists>d \<in> set (collection (telemetryModel w)). deviceId d = dev) \<longrightarrow>
        (\<exists>d \<in> set (collection (telemetryModel w)).
            deviceId d = dev
            \<and> (\<forall>e \<in> set (collection (telemetryModel w)). deviceId e = dev \<longrightarrow> ts e \<le> ts d)
            \<and> fst (TelemetryService_getLatest parse stringify dev w) = Inr (lean d)
            \<and> redisService (snd (TelemetryService_getLatest parse stringify dev w))
                = snd (cacheLatest stringify dev (lean d) 86400
                         (snd (getLatest parse dev (redisService w))))))
   \<and> (read_error (telemetryModel w) = None \<longrightarrow>
        ((\<exists>message. fst (TelemetryService_getLatest parse stringify dev w)
                      = Inl (NotFoundException message))
         \<longleftrightarrow> \<not> truthy (cached_value parse dev (redisService w))
             \<and> (\<forall>d \<in> set (collection (telemetryModel w)). deviceId d \<noteq> dev)))"
proof (intro conjI impI)
  assume "truthy (cached_value parse dev (redisService w))"
  then show "fst (TelemetryService_getLatest parse stringify dev w)
      = Inr (cached_value parse dev (redisService w))"
    and "telemetryModel (snd (TelemetryService_getLatest parse stringify dev w))
      = telemetryModel w"
    by (simp_all add: TelemetryService_getLatest_eq Let_def)
next
  let ?ds = "filter (\<lambda>d. deviceId d = dev) (collection (telemetryModel w))"
  assume h: "\<not> truthy (cached_value parse dev (redisService w))
        \<and> read_error (telemetryModel w) = None
        \<and> (\<exists>d \<in> set (collection (telemetryModel w)). deviceId d = dev)"
  then have "?ds \<noteq> []"
    by (auto simp add: filter_empty_conv)
  then obtain d where d: "greatest_ts ?ds = Some d"
    using greatest_ts_None [of ?ds] by (cases "greatest_ts ?ds") auto
  have "d \<in> set ?ds" "\<forall>e \<in> set ?ds. ts e \<le> ts d"
    using greatest_ts_Some [OF d] by simp_all
  then have "d \<in> set (collection (telemetryModel w))" "deviceId d = dev"
    "\<forall>e \<in> set (collection (telemetryModel w)). deviceId e = dev \<longrightarrow> ts e \<le> ts d"
    by simp_all
  moreover have "fst (TelemetryService_getLatest parse stringify dev w) = Inr (lean d)"
    "redisService (snd (TelemetryService_getLatest parse stringify dev w))
       = snd (cacheLatest stringify dev (lean d) 86400
                (snd (getLatest parse dev (redisService w))))"
    using h d by (simp_all add: TelemetryService_getLatest_eq Let_def)
  ultimately show "\<exists>d \<in> set (collection (telemetryModel w)).
            deviceId d = dev
            \<and> (\<forall>e \<in> set (collection (telemetryModel w)). deviceId e = dev \<longrightarrow> ts e \<le> ts d)
            \<and> fst (TelemetryService_getLatest parse stringify dev w) = Inr (lean d)
            \<and> redisService (snd (TelemetryService_getLatest parse stringify dev w))
                = snd (cacheLatest stringify dev (lean d) 86400
                         (snd (getLatest parse dev (redisService w))))"
    by blast
next
  let ?ds = "filter (\<lambda>d. deviceId d = dev) (collection (telemetryModel w))"
  assume ok: "read_error (telemetryModel w) = None"
  have "greatest_ts ?ds = None
      \<longleftrightarrow> (\<forall>d \<in> set (collection (telemetryModel w)). deviceId d \<noteq> dev)"
    by (simp add: greatest_ts_None filter_empty_conv)
  then show "(\<exists>message. fst (TelemetryService_getLatest parse stringify dev w)
                      = Inl (NotFoundException message))
         \<longleftrightarrow> \<not> truthy (cached_value parse dev (redisService w))
             \<and> (\<forall>d \<in> set (collection (telemetryModel w)). deviceId d \<noteq> dev)"
    using ok
    by (cases "greatest_ts ?ds") (auto simp add: TelemetryService_getLatest_eq Let_def)
qed

theorem latest_reading_witness:
  "truthy (cached_value example_parse ''d1'' (redisService cached_world))
   \<and> fst (TelemetryService_getLatest example_parse example_stringify ''d1'' cached_world)
       = Inr (JArr [JNum 25, JNum 60])
   \<and> telemetryModel (snd (TelemetryService_getLatest example_parse example_stringify ''d1''
                            cached_world))
       = telemetryModel cached_world
   \<and> \<not> truthy (cached_value example_parse ''d2'' (redisService cached_world))
   \<and> read_error (telemetryModel cached_world) = None
   \<and> fst (TelemetryService_getLatest example_parse example_stringify ''d2'' cached_world)
       = Inr (lean doc2)
   \<and> live (client (redisService
        (snd (TelemetryService_getLatest example_parse example_stringify ''d2'' cached_world))))
        ''latest:d2''
   \<and> fst (TelemetryService_getLatest example_parse example_stringify ''d9'' cached_world)
       = Inl (NotFoundException ''No telemetry data found for device: d9'')"
proof -
  note t1 = latest_reading [of example_parse "''d1''" cached_world example_stringify]
  note t2 = latest_reading [of example_parse "''d2''" cached_world example_stringify]
  note t9 = latest_reading [of example_parse "''d9''" cached_world example_stringify]
  have hit: "fst (TelemetryService_getLatest example_parse example_stringify ''d1'' cached_world)
       = Inr (JArr [JNum 25, JNum 60])
     \<and> telemetryModel (snd (TelemetryService_getLatest example_parse example_stringify ''d1''
                            cached_world))
       = telemetryModel cached_world"
    using t1 by (simp add: cached_values)
  have miss: "fst (TelemetryService_getLatest example_parse example_stringify ''d2'' cached_world)
       = Inr (lean doc2)
     \<and> redisService (snd (TelemetryService_getLatest example_parse example_stringify ''d2''
                            cached_world))
       = snd (cacheLatest example_stringify ''d2'' (lean doc2) 86400
                (snd (getLatest example_parse ''d2'' (redisService cached_world))))"
    using t2
    by (simp add: cached_values cached_world_simps doc1_def doc2_def doc3_def)
  have absent: "\<exists>message.
      fst (TelemetryService_getLatest example_parse example_stringify ''d9'' cached_world)
        = Inl (NotFoundException message)"
    using t9 by (simp add: cached_values cached_world_simps doc1_def doc2_def doc3_def)
  then have nf: "fst (TelemetryService_getLatest example_parse example_stringify ''d9'' cached_world)
       = Inl (NotFoundException ''No telemetry data found for device: d9'')"
    by (auto simp add: TelemetryService_getLatest_eq Let_def split: option.splits if_splits)
  have stored: "live (client (redisService
        (snd (TelemetryService_getLatest example_parse example_stringify ''d2'' cached_world))))
        ''latest:d2''"
    using miss
    by (simp add: cacheLatest_eq getLatest_eq cached_world_simps example_stringify_def lean_def
        live_def latest_key_def issue_def)
  show ?thesis
    using hit miss absent nf stored by (simp add: cached_values cached_world_simps)
qed

text \<open>
  Claim C10. When the live value stored under \<^verbatim>\<open>latest:<deviceId>\<close> does not parse,
  \<open>getLatest\<close> of the cache resolves with null, and \<open>TelemetryService_getLatest\<close> gives
  the result it gives with that key removed: the stored document of greatest timestamp,
  or \<open>NotFoundException\<close> when there is none, or the storage error of the read; never
  the error of \<^verbatim>\<open>JSON.parse\<close>.
\<close>

theorem corrupt_cache_is_a_miss:
  assumes "isConnected (redisService w)"
    and "\<not> rejects (client (redisService w)) (Get (latest_key dev))"
    and "kv (client (redisService w)) (latest_key dev) = Some (s, expiry)"
    and "now (client (redisService w)) < expiry"
    and "parse s = None"
  shows "fst (getLatest parse dev (redisService w)) = Inr JNull
     \<and> fst (TelemetryService_getLatest parse stringify dev w)
         = fst (TelemetryService_getLatest parse stringify dev (evict dev w))
     \<and> fst (TelemetryService_getLatest parse stringify dev w)
         = (case read_error (telemetryModel w) of
              Some message \<Rightarrow> Inl (StorageError message)
            | None \<Rightarrow>
                (case greatest_ts (filter (\<lambda>d. deviceId d = dev)
                                     (collection (telemetryModel w))) of
                   None \<Rightarrow>
                     Inl (NotFoundException (''No telemetry data found for device: '' @ dev))
                 | Some d \<Rightarrow> Inr (lean d)))
     \<and> (\<forall>message. fst (TelemetryService_getLatest parse stringify dev w)
                     \<noteq> Inl (JsonError message))"
proof -
  have null: "fst (getLatest parse dev (redisService w)) = Inr JNull"
    using assms by (simp add: getLatest_eq)
  then have miss: "cached_value parse dev (redisService w) = JNull"
    by (simp add: cached_value_def)
  have same: "telemetryModel (evict dev w) = telemetryModel w"
    by (simp add: evict_def)
  have fall: "fst (TelemetryService_getLatest parse stringify dev w)
         = (case read_error (telemetryModel w) of
              Some message \<Rightarrow> Inl (StorageError message)
            | None \<Rightarrow>
                (case greatest_ts (filter (\<lambda>d. deviceId d = dev)
                                     (collection (telemetryModel w))) of
                   None \<Rightarrow>
                     Inl (NotFoundException (''No telemetry data found for device: '' @ dev))
                 | Some d \<Rightarrow> Inr (lean d)))"
    by (simp add: TelemetryService_getLatest_eq Let_def miss split: option.splits)
  have "fst (TelemetryService_getLatest parse stringify dev (evict dev w))
         = (case read_error (telemetryModel w) of
              Some message \<Rightarrow> Inl (StorageError message)
            | None \<Rightarrow>
                (case greatest_ts (filter (\<lambda>d. deviceId d = dev)
                                     (collection (telemetryModel w))) of
                   None \<Rightarrow>
                     Inl (NotFoundException (''No telemetry data found for device: '' @ dev))
                 | Some d \<Rightarrow> Inr (lean d)))"
    by (simp add: TelemetryService_getLatest_eq Let_def cached_value_evict same
        split: option.splits)
  with fall have eq: "fst (TelemetryService_getLatest parse stringify dev w)
         = fst (TelemetryService_getLatest parse stringify dev (evict dev w))"
    by simp
  have "\<forall>message. fst (TelemetryService_getLatest parse stringify dev w)
                     \<noteq> Inl (JsonError message)"
    unfolding fall by (simp split: option.splits)
  with null eq fall show ?thesis
    by blast
qed

theorem corrupt_cache_is_a_miss_witness:
  "isConnected (redisService cached_world)
   \<and> \<not> rejects (client (redisService cached_world)) (Get (latest_key ''d3''))
   \<and> kv (client (redisService cached_world)) (latest_key ''d3'') = Some (''[25,'', 87400)
   \<and> now (client (redisService cached_world)) < 87400
   \<and> example_parse ''[25,'' = None
   \<and> fst (getLatest example_parse ''d3'' (redisService cached_world)) = Inr JNull
   \<and> fst (TelemetryService_getLatest example_parse example_stringify ''d3'' cached_world)
       = Inr (lean doc3)
   \<and> kv (client (redisService cached_world)) (latest_key ''d9'') = Some (''<html>'', 87400)
   \<and> example_parse ''<html>'' = None
   \<and> fst (TelemetryService_getLatest example_parse example_stringify ''d9'' cached_world)
       = Inl (NotFoundException ''No telemetry data found for device: d9'')"
proof -
  have h3: "isConnected (redisService cached_world)"
    "\<not> rejects (client (redisService cached_world)) (Get (latest_key ''d3''))"
    "kv (client (redisService cached_world)) (latest_key ''d3'') = Some (''[25,'', 87400)"
    "now (client (redisService cached_world)) < 87400"
    "example_parse ''[25,'' = None"
    by (simp_all add: cached_world_simps latest_key_def example_parse_def)
  have h9: "\<not> rejects (client (redisService cached_world)) (Get (latest_key ''d9''))"
    "kv (client (redisService cached_world)) (latest_key ''d9'') = Some (''<html>'', 87400)"
    "example_parse ''<html>'' = None"
    by (simp_all add: cached_world_simps latest_key_def example_parse_def)
  note t3 = corrupt_cache_is_a_miss [where parse = example_parse and w = cached_world
      and dev = "''d3''" and s = "''[25,''" and expiry = 87400 and stringify = example_stringify,
      OF h3]
  note t9 = corrupt_cache_is_a_miss [where parse = example_parse and w = cached_world
      and dev = "''d9''" and s = "''<html>''" and expiry = 87400 and stringify = example_stringify,
      OF h3(1) h9(1) h9(2) h3(4) h9(3)]
  show ?thesis
    using h3 h9 t3 [THEN conjunct1] t3 [THEN conjunct2, THEN conjunct2, THEN conjunct1]
      t9 [THEN conjunct2, THEN conjunct2, THEN conjunct1]
    by (simp add: cached_world_simps doc1_def doc2_def doc3_def)
qed

end
